theory Spec2Isabelle
  imports Complex_Main
begin

section \<open>The evaluation script of slam\_metrics\<close>

text \<open>
  The repository's source is the command-line script \<^verbatim>\<open>script_evaluate_metrics.py\<close>.
  It reads two trajectories, scales them, associates them by timestamp, aligns them and
  prints error metrics.  The script is straight-line code with a few branches; all the
  numerical work is done by the modules \<^verbatim>\<open>utils\<close>, \<^verbatim>\<open>slam_metrics\<close>,
  \<^verbatim>\<open>plot_utils\<close> and \<^verbatim>\<open>numpy\<close>, whose sources are not part of the files at hand.
  The script is therefore embedded as a function \<open>main\<close> of the parsed arguments and of
  a record \<open>L\<close> holding those functions; every theorem about \<open>main\<close> holds for whatever
  they compute, raise or return.
\<close>

subsection \<open>Python values and exceptions\<close>

text \<open>
  An exception ends the run.  \<open>NameError v\<close> is the read of a variable \<open>v\<close> that no
  executed statement has bound; \<open>Raised s\<close> stands for any exception raised inside a
  called module.
\<close>

datatype error =
    NameError string
  | ValueError
  | TypeError
  | AttributeError
  | IndexError
  | Raised string

text \<open>
  Floats.  The script never computes with a float itself: it converts text to floats,
  passes floats to the modules and lets \<^verbatim>\<open>numpy\<close> divide arrays and take norms.  The
  float64 values are therefore the elements of a type \<open>'x\<close> about which nothing is
  assumed: no order, no zero, no arithmetic.  Infinities and not-a-numbers are values of
  \<open>'x\<close> like any other, and a statement about \<open>main\<close> holds however floats round,
  overflow or compare.

  A pose or covariance matrix is the list of its rows.  A 2-D array of error samples
  (\<open>6 \<times> N\<close> or \<open>3 \<times> N\<close>, one column per matched pair) is the list of its \<open>N\<close>
  columns, since the script only ever slices rows, takes column norms and divides
  column-wise.
\<close>

type_synonym 'x matrix = "'x list list"
type_synonym 'x emat = "'x list list"

text \<open>
  What a trajectory variable of the script can hold: a dict from timestamp to matrix
  (in iteration order), a 2-tuple (what the converter returns for the covariance
  format), or a float (a dict key, see \<open>unpack2\<close>).
\<close>

datatype 'x obj = Dict "('x \<times> 'x matrix) list" | Tup "'x obj" "'x obj" | Flt 'x

text \<open>
  The \<^verbatim>\<open>scale_factor\<close> the script passes to \<^verbatim>\<open>scale_dict\<close>: the integer literal
  \<^verbatim>\<open>1\<close> or the float \<^verbatim>\<open>scale\<close>.
\<close>

datatype 'x pynum = PyInt int | PyFloat 'x

subsection \<open>Command-line arguments\<close>

text \<open>
  The namespace built by \<^verbatim>\<open>argparse\<close>.  No option declares a type, so a numeric
  option is text (or its default) until the script applies \<^verbatim>\<open>float()\<close> or
  \<^verbatim>\<open>int()\<close> to it.  Such a field holds what that conversion makes of the option:
  \<open>Some x\<close> when it returns \<open>x\<close>, which for \<^verbatim>\<open>float()\<close> is any float64, also an
  infinity or a not-a-number (\<^verbatim>\<open>float('inf')\<close>, \<^verbatim>\<open>float('nan')\<close>,
  \<^verbatim>\<open>float('1e999')\<close>); \<open>None\<close> when it raises \<^verbatim>\<open>ValueError\<close>.
\<close>

record 'x args =
  gt_file :: string
  est_file :: string
  offset :: "'x option"
  offset_initial :: "'x option"
  scale :: "'x option"
  max_pairs :: "int option"
  max_difference :: "'x option"
  fixed_delta :: bool
  delta :: "'x option"
  delta_unit :: string
  alignment :: string
  plot_lang :: string
  plot_format :: string
  ate_manifold :: bool
  rpe :: bool
  ddt :: bool
  automatic_scale :: bool
  show_plots :: bool
  no_metrics :: bool
  verbose :: bool
  ignore_timestamp_match :: bool
  recommended_offset :: bool

subsection \<open>The imported modules\<close>

text \<open>
  The functions of \<^verbatim>\<open>utils\<close>, \<^verbatim>\<open>slam_metrics\<close> and \<^verbatim>\<open>plot_utils\<close> that the
  script calls, each with the arguments the script passes, returning a value or an
  exception.  \<open>'f\<close> is the type of a raw file dict.  An optional keyword argument the
  script leaves out is \<open>None\<close>.

  The last three fields are what the script uses of floats: \<open>true_divide x y\<close> is the
  quotient of two floats as \<^verbatim>\<open>np.divide\<close> computes it, \<open>vector_norm xs\<close> is the
  2-norm of one column as \<^verbatim>\<open>np.linalg.norm\<close> computes it, and \<open>sort_stamps\<close> is
  \<^verbatim>\<open>list.sort\<close> on a list of timestamps.  Under numpy's default error settings a
  division by zero or an overflow gives a warning and a value, never an exception, so
  the first two return a float.
\<close>

record ('f, 'x) lib =
  set_language :: "string \<Rightarrow> error + unit"
  set_file_extension :: "string \<Rightarrow> error + unit"
  read_file_dict :: "string \<Rightarrow> error + 'f"
  check_valid_pose_format :: "'f \<Rightarrow> error + string"
  convert_file_dict_to_pose_dict :: "'f \<Rightarrow> string \<Rightarrow> error + 'x obj"
  compute_scale_from_trajectories :: "'x obj \<Rightarrow> 'x obj \<Rightarrow> error + 'x"
  scale_dict :: "'x obj \<Rightarrow> 'x pynum \<Rightarrow> bool option \<Rightarrow> error + 'x obj"
  associate_and_filter ::
    "'x obj \<Rightarrow> 'x obj \<Rightarrow> 'x \<Rightarrow> 'x \<Rightarrow> 'x \<Rightarrow> bool \<Rightarrow> error + ('x obj \<times> 'x obj)"
  align_trajectories_manifold ::
    "'x obj \<Rightarrow> 'x obj \<Rightarrow> 'x obj option \<Rightarrow> bool \<Rightarrow> error + ('x obj \<times> 'x obj \<times> 'x matrix)"
  align_trajectories_horn ::
    "'x obj \<Rightarrow> 'x obj \<Rightarrow> bool \<Rightarrow> error + ('x obj \<times> 'x obj \<times> 'x matrix)"
  align_trajectories_to_first :: "'x obj \<Rightarrow> 'x obj \<Rightarrow> error + ('x obj \<times> 'x obj)"
  rotm_to_rpy :: "'x matrix \<Rightarrow> error + 'x list"
  ATE_Horn :: "'x obj \<Rightarrow> 'x obj \<Rightarrow> string option \<Rightarrow> error + 'x emat"
  ATE_SE3 :: "'x obj \<Rightarrow> 'x obj \<Rightarrow> 'x \<Rightarrow> 'x \<Rightarrow> error + 'x emat"
  RPE ::
    "'x obj \<Rightarrow> 'x obj \<Rightarrow> int \<Rightarrow> bool \<Rightarrow> 'x \<Rightarrow> string \<Rightarrow> 'x
      \<Rightarrow> error + ('x emat \<times> 'x emat \<times> 'x emat \<times> 'x list)"
  compute_statistics :: "'x list \<Rightarrow> string option \<Rightarrow> bool \<Rightarrow> error + unit"
  plot_2d_traj_xyz ::
    "'x list \<Rightarrow> 'x list list \<Rightarrow> 'x list \<Rightarrow> 'x list list \<Rightarrow> bool \<Rightarrow> error + unit"
  true_divide :: "'x \<Rightarrow> 'x \<Rightarrow> 'x"
  vector_norm :: "'x list \<Rightarrow> 'x"
  sort_stamps :: "'x list \<Rightarrow> 'x list"

subsection \<open>Runs\<close>

text \<open>
  What a run does that can be observed, in order: the lines it prints, the calls it
  makes into the modules, the samples it hands to \<^verbatim>\<open>compute_statistics\<close>, and the
  one numpy operation that decides a metric, the division of the DDT stage.  A call of
  \<^verbatim>\<open>ATE_Horn\<close> is observed with its \<^verbatim>\<open>axes\<close> argument (\<open>None\<close> when the script
  leaves it out).  The arguments of \<^verbatim>\<open>%\<close>-formatting are left out of a printed line,
  except the scale.
\<close>

datatype fn =
    SetLanguage | SetFileExtension
  | ReadFileDict | CheckValidPoseFormat | ConvertFileDict
  | ComputeScale | ScaleDict
  | AssociateAndFilter
  | AlignManifold | AlignHorn | AlignFirst
  | AteHorn "string option" | AteSE3 | Rpe | NpDivide
  | RotmToRpy | Plot2dTrajXyz

datatype 'x event =
    Print string
  | PrintScale 'x
  | Call fn
  | Stats "string option" "'x list" bool

text \<open>
  A computation of the script yields the events up to its end or up to the exception,
  and then its value or the exception.
\<close>

type_synonym ('x, 'a) run = "'x event list \<times> (error + 'a)"

definition ret :: "'a \<Rightarrow> ('x, 'a) run" where
  "ret x = ([], Inr x)"

definition raise :: "error \<Rightarrow> ('x, 'a) run" where
  "raise e = ([], Inl e)"

definition emit :: "'x event \<Rightarrow> ('x, unit) run" where
  "emit ev = ([ev], Inr ())"

definition prepend :: "'x event list \<Rightarrow> ('x, 'a) run \<Rightarrow> ('x, 'a) run" where
  "prepend tr m = (tr @ fst m, snd m)"

definition andthen :: "('x, 'a) run \<Rightarrow> ('a \<Rightarrow> ('x, 'b) run) \<Rightarrow> ('x, 'b) run" where
  "andthen m f =
     (case snd m of
        Inl e \<Rightarrow> (fst m, Inl e)
      | Inr x \<Rightarrow> prepend (fst m) (f x))"

text \<open>A call into a module: the call is observed, then it returns or raises.\<close>

definition call :: "fn \<Rightarrow> error + 'a \<Rightarrow> ('x, 'a) run" where
  "call f r = ([Call f], r)"

text \<open>Reading a variable that may not have been bound.\<close>

definition lookup :: "string \<Rightarrow> 'a option \<Rightarrow> ('x, 'a) run" where
  "lookup v x = (case x of None \<Rightarrow> raise (NameError v) | Some y \<Rightarrow> ret y)"

text \<open>\<^verbatim>\<open>float(args.x)\<close> and \<^verbatim>\<open>int(args.x)\<close>.\<close>

definition py_float :: "'a option \<Rightarrow> ('x, 'a) run" where
  "py_float x = (case x of None \<Rightarrow> raise ValueError | Some y \<Rightarrow> ret y)"

text \<open>
  \<^verbatim>\<open>a, b = x\<close>: a 2-tuple gives its components; a dict is iterated over its keys, so
  it must have exactly two, and then binds the two timestamps; a float is not iterable.
\<close>

definition unpack2 :: "'x obj \<Rightarrow> ('x, 'x obj \<times> 'x obj) run" where
  "unpack2 x =
     (case x of
        Tup a b \<Rightarrow> ret (a, b)
      | Dict d \<Rightarrow>
          (case d of
             [(k0, _), (k1, _)] \<Rightarrow> ret (Flt k0, Flt k1)
           | _ \<Rightarrow> raise ValueError)
      | Flt _ \<Rightarrow> raise TypeError)"

subsection \<open>The numpy operations of the script\<close>

text \<open>
  \<^verbatim>\<open>np.divide(e, d)\<close> for a 2-D array \<open>e\<close> with \<open>N\<close> columns and a 1-D array \<open>d\<close>
  of length \<open>M\<close>.  Broadcasting matches the columns of \<open>e\<close> with the entries of \<open>d\<close>:
  column \<open>j\<close> is divided by \<open>d[j]\<close> when \<open>N = M\<close>; a single entry divides every column; a
  single column is divided by every entry; any other shapes raise \<^verbatim>\<open>ValueError\<close>.
  Every entry of the result is one float division; no entry is tested or left out.
\<close>

definition np_divide :: "('f, 'x) lib \<Rightarrow> 'x emat \<Rightarrow> 'x list \<Rightarrow> error + 'x emat" where
  "np_divide L e d =
     (if length e = length d
        then Inr (map2 (\<lambda>col x. map (\<lambda>y. true_divide L y x) col) e d)
      else if length d = 1
        then Inr (map (\<lambda>col. map (\<lambda>y. true_divide L y (hd d)) col) e)
      else if length e = 1
        then Inr (map (\<lambda>x. map (\<lambda>y. true_divide L y x) (hd e)) d)
      else Inl ValueError)"

text \<open>\<^verbatim>\<open>np.linalg.norm(e, axis=0)\<close>: one norm per column.\<close>

definition column_norms :: "('f, 'x) lib \<Rightarrow> 'x emat \<Rightarrow> 'x list" where
  "column_norms L e = map (vector_norm L) e"

text \<open>\<^verbatim>\<open>e[0:3,:]\<close> and \<^verbatim>\<open>e[3:6,:]\<close>: a slice of rows never raises.\<close>

definition rows_0_3 :: "'x emat \<Rightarrow> 'x emat" where
  "rows_0_3 e = map (take 3) e"

definition rows_3_6 :: "'x emat \<Rightarrow> 'x emat" where
  "rows_3_6 e = map (\<lambda>col. take 3 (drop 3 col)) e"

text \<open>
  \<^verbatim>\<open>m[0:3,3]\<close> and \<^verbatim>\<open>m[0:3,0:3]\<close> on a matrix: the slices truncate, the index 3 must
  be a column of the matrix.
\<close>

definition ncols :: "'x matrix \<Rightarrow> nat" where
  "ncols m = (case m of [] \<Rightarrow> 0 | r # _ \<Rightarrow> length r)"

definition xyz_of :: "'x matrix \<Rightarrow> error + 'x list" where
  "xyz_of m = (if 3 < ncols m then Inr (map (\<lambda>r. r ! 3) (take 3 m)) else Inl IndexError)"

definition rot_of :: "'x matrix \<Rightarrow> 'x matrix" where
  "rot_of m = map (take 3) (take 3 m)"

subsection \<open>The script\<close>

text \<open>
  The variables of the script that later statements read.  A variable bound on some
  paths only is an option: \<open>None\<close> while no executed statement has bound it.
\<close>

record 'x env =
  gt_format :: string
  gt_poses :: "'x obj"
  est_poses :: "'x obj"
  gt_cov :: "'x obj option"
  est_cov :: "'x obj option"
  gt_poses_align :: "'x obj option"
  est_poses_align :: "'x obj option"
  rpe_error :: "'x emat option"
  rpe_distance :: "'x list option"

text \<open>Lines 53--55: the plotting configuration.\<close>

definition configure :: "('f, 'x) lib \<Rightarrow> 'x args \<Rightarrow> ('x, unit) run" where
  "configure L a =
     andthen (call SetLanguage (set_language L (plot_lang a))) (\<lambda>_.
     call SetFileExtension (set_file_extension L (plot_format a)))"

text \<open>
  Lines 57--71: both files are read, their formats checked and their poses converted.
  The covariance branch is chosen on the format of the ground truth alone and unpacks
  both results.
\<close>

definition load :: "('f, 'x) lib \<Rightarrow> 'x args \<Rightarrow> ('x, 'x env) run" where
  "load L a =
     andthen (call ReadFileDict (read_file_dict L (gt_file a))) (\<lambda>gt_dict.
     andthen (call ReadFileDict (read_file_dict L (est_file a))) (\<lambda>est_dict.
     andthen (call CheckValidPoseFormat (check_valid_pose_format L gt_dict)) (\<lambda>gt_fmt.
     andthen (call CheckValidPoseFormat (check_valid_pose_format L est_dict)) (\<lambda>est_fmt.
     if gt_fmt = ''tum_cov'' then
       andthen (call ConvertFileDict (convert_file_dict_to_pose_dict L gt_dict gt_fmt)) (\<lambda>g.
       andthen (unpack2 g) (\<lambda>(gp, gc).
       andthen (call ConvertFileDict (convert_file_dict_to_pose_dict L est_dict est_fmt)) (\<lambda>e.
       andthen (unpack2 e) (\<lambda>(ep, ec).
       ret \<lparr>gt_format = gt_fmt, gt_poses = gp, est_poses = ep,
            gt_cov = Some gc, est_cov = Some ec,
            gt_poses_align = None, est_poses_align = None,
            rpe_error = None, rpe_distance = None\<rparr>))))
     else
       andthen (call ConvertFileDict (convert_file_dict_to_pose_dict L gt_dict gt_fmt)) (\<lambda>gp.
       andthen (call ConvertFileDict (convert_file_dict_to_pose_dict L est_dict est_fmt)) (\<lambda>ep.
       ret \<lparr>gt_format = gt_fmt, gt_poses = gp, est_poses = ep,
            gt_cov = None, est_cov = None,
            gt_poses_align = None, est_poses_align = None,
            rpe_error = None, rpe_distance = None\<rparr>))))))"

text \<open>
  Lines 76--85: the scale is the argument, or the computed one when
  \<^verbatim>\<open>--automatic_scale\<close> is set; the ground truth is scaled by 1 and the estimate by
  the scale.  The argument is converted before the flag is tested.  The scaled
  ground-truth covariance is bound to \<^verbatim>\<open>gt_cov_\<close>, a name nothing reads, so
  \<^verbatim>\<open>gt_cov\<close> keeps its value.
\<close>

definition apply_scale :: "('f, 'x) lib \<Rightarrow> 'x args \<Rightarrow> 'x env \<Rightarrow> ('x, 'x env) run" where
  "apply_scale L a v =
     andthen (py_float (scale a)) (\<lambda>s0.
     andthen (if automatic_scale a
              then call ComputeScale
                     (compute_scale_from_trajectories L (gt_poses v) (est_poses v))
              else ret s0) (\<lambda>s.
     andthen (emit (PrintScale s)) (\<lambda>_.
     andthen (call ScaleDict (scale_dict L (gt_poses v) (PyInt 1) None)) (\<lambda>gp.
     andthen (call ScaleDict (scale_dict L (est_poses v) (PyFloat s) None)) (\<lambda>ep.
     if gt_format v = ''tum_cov'' then
       andthen (lookup ''gt_cov'' (gt_cov v)) (\<lambda>gc.
       andthen (call ScaleDict (scale_dict L gc (PyInt 1) (Some True))) (\<lambda>gt_cov_scaled.
       andthen (lookup ''est_cov'' (est_cov v)) (\<lambda>ec.
       andthen (call ScaleDict (scale_dict L ec (PyFloat s) (Some True))) (\<lambda>ec'.
       ret (v\<lparr>gt_poses := gp, est_poses := ep, est_cov := Some ec'\<rparr>)))))
     else ret (v\<lparr>gt_poses := gp, est_poses := ep\<rparr>))))))"

text \<open>
  Lines 87--91: the association by timestamps, unless \<^verbatim>\<open>--ignore_timestamp_match\<close>
  is set; then nothing is done.
\<close>

definition associate :: "('f, 'x) lib \<Rightarrow> 'x args \<Rightarrow> 'x env \<Rightarrow> ('x, 'x env) run" where
  "associate L a v =
     (if \<not> ignore_timestamp_match a then
        andthen (py_float (offset a)) (\<lambda>off.
        andthen (py_float (max_difference a)) (\<lambda>md.
        andthen (py_float (offset_initial a)) (\<lambda>oi.
        andthen (call AssociateAndFilter
                   (associate_and_filter L (gt_poses v) (est_poses v) off md oi
                      (recommended_offset a))) (\<lambda>(gp, ep).
        if gt_format v = ''tum_cov'' then
          andthen (lookup ''gt_cov'' (gt_cov v)) (\<lambda>gc.
          andthen (lookup ''est_cov'' (est_cov v)) (\<lambda>ec.
          andthen (call AssociateAndFilter
                     (associate_and_filter L gc ec off md oi (recommended_offset a)))
            (\<lambda>(gc', ec').
          ret (v\<lparr>gt_poses := gp, est_poses := ep,
                 gt_cov := Some gc', est_cov := Some ec'\<rparr>))))
        else ret (v\<lparr>gt_poses := gp, est_poses := ep\<rparr>)))))
      else ret v)"

text \<open>
  Lines 93--102: the alignment.  The chain of comparisons has no final \<^verbatim>\<open>else\<close>: for
  any other string no statement binds the aligned trajectories.
\<close>

definition align :: "('f, 'x) lib \<Rightarrow> 'x args \<Rightarrow> 'x env \<Rightarrow> ('x, 'x env) run" where
  "align L a v =
     (if alignment a = ''manifold'' then
        (if gt_format v = ''tum_cov'' then
           andthen (lookup ''est_cov'' (est_cov v)) (\<lambda>ec.
           andthen (call AlignManifold
                      (align_trajectories_manifold L (gt_poses v) (est_poses v) (Some ec) False))
             (\<lambda>(g, e, T_align_man).
           ret (v\<lparr>gt_poses_align := Some g, est_poses_align := Some e\<rparr>)))
         else
           andthen (call AlignManifold
                      (align_trajectories_manifold L (gt_poses v) (est_poses v) None False))
             (\<lambda>(g, e, T_align_man).
           ret (v\<lparr>gt_poses_align := Some g, est_poses_align := Some e\<rparr>)))
      else if alignment a = ''horn'' then
        andthen (call AlignHorn (align_trajectories_horn L (gt_poses v) (est_poses v) False))
          (\<lambda>(g, e, T_align_horn).
        ret (v\<lparr>gt_poses_align := Some g, est_poses_align := Some e\<rparr>))
      else if alignment a = ''first'' then
        andthen (call AlignFirst (align_trajectories_to_first L (gt_poses v) (est_poses v)))
          (\<lambda>(g, e).
        ret (v\<lparr>gt_poses_align := Some g, est_poses_align := Some e\<rparr>))
      else ret v)"

text \<open>\<^verbatim>\<open>slam_metrics.compute_statistics(samples, variable=..., verbose=...)\<close>.\<close>

definition statistics :: "('f, 'x) lib \<Rightarrow> 'x list \<Rightarrow> string option \<Rightarrow> bool \<Rightarrow> ('x, unit) run" where
  "statistics L xs var vb = ([Stats var xs vb], compute_statistics L xs var vb)"

text \<open>Lines 108--122: the ATE of Horn, on all axes and on each axis; no flag guards it.\<close>

definition ate_horn_block ::
  "('f, 'x) lib \<Rightarrow> 'x args \<Rightarrow> 'x env \<Rightarrow> string \<Rightarrow> string option \<Rightarrow> ('x, unit) run" where
  "ate_horn_block L a v label axes =
     andthen (emit (Print label)) (\<lambda>_.
     andthen (lookup ''gt_poses_align'' (gt_poses_align v)) (\<lambda>g.
     andthen (lookup ''est_poses_align'' (est_poses_align v)) (\<lambda>e.
     andthen (call (AteHorn axes) (ATE_Horn L g e axes)) (\<lambda>ate_horn_error.
     statistics L (column_norms L ate_horn_error) None (verbose a)))))"

definition ate_horn_stage :: "('f, 'x) lib \<Rightarrow> 'x args \<Rightarrow> 'x env \<Rightarrow> ('x, unit) run" where
  "ate_horn_stage L a v =
     andthen (ate_horn_block L a v ''ATE - Horn'' None) (\<lambda>_.
     andthen (ate_horn_block L a v ''ATE - Horn - X'' (Some ''X'')) (\<lambda>_.
     andthen (ate_horn_block L a v ''ATE - Horn - Y'' (Some ''Y'')) (\<lambda>_.
     ate_horn_block L a v ''ATE - Horn - Z'' (Some ''Z''))))"

text \<open>Lines 126--134: the ATE on the manifold, under \<^verbatim>\<open>--ate_manifold\<close>.\<close>

definition ate_manifold_stage :: "('f, 'x) lib \<Rightarrow> 'x args \<Rightarrow> 'x env \<Rightarrow> ('x, unit) run" where
  "ate_manifold_stage L a v =
     (if ate_manifold a then
        andthen (emit (Print ''ATE - Manifold'')) (\<lambda>_.
        andthen (lookup ''gt_poses_align'' (gt_poses_align v)) (\<lambda>g.
        andthen (lookup ''est_poses_align'' (est_poses_align v)) (\<lambda>e.
        andthen (py_float (offset a)) (\<lambda>off.
        andthen (py_float (max_difference a)) (\<lambda>md.
        andthen (call AteSE3 (ATE_SE3 L g e off md)) (\<lambda>ate_se3_error.
        andthen (statistics L (column_norms L (rows_0_3 ate_se3_error))
                   (Some ''Translational'') (verbose a)) (\<lambda>_.
        statistics L (column_norms L (rows_3_6 ate_se3_error))
          (Some ''Rotational'') (verbose a))))))))
      else ret ())"

text \<open>
  Lines 136--148: the RPE, under \<^verbatim>\<open>--rpe\<close>.  It binds \<^verbatim>\<open>rpe_error\<close> and
  \<^verbatim>\<open>rpe_distance\<close>; nothing else does.
\<close>

definition rpe_stage :: "('f, 'x) lib \<Rightarrow> 'x args \<Rightarrow> 'x env \<Rightarrow> ('x, 'x env) run" where
  "rpe_stage L a v =
     (if rpe a then
        andthen (emit (Print ''RPE'')) (\<lambda>_.
        andthen (lookup ''gt_poses_align'' (gt_poses_align v)) (\<lambda>g.
        andthen (lookup ''est_poses_align'' (est_poses_align v)) (\<lambda>e.
        andthen (py_float (max_pairs a)) (\<lambda>mp.
        andthen (py_float (delta a)) (\<lambda>dl.
        andthen (py_float (offset a)) (\<lambda>off.
        andthen (call Rpe (RPE L g e mp (fixed_delta a) dl (delta_unit a) off))
          (\<lambda>(err, rpe_trans_error, rpe_rot_error, dist).
        andthen (statistics L (column_norms L (rows_0_3 err))
                   (Some ''Translational'') (verbose a)) (\<lambda>_.
        andthen (statistics L (column_norms L (rows_3_6 err))
                   (Some ''Rotational'') (verbose a)) (\<lambda>_.
        ret (v\<lparr>rpe_error := Some err, rpe_distance := Some dist\<rparr>))))))))))
      else ret v)"

text \<open>
  Lines 150--155: the DDT, under \<^verbatim>\<open>--ddt\<close>: the RPE error divided by the RPE
  distance, with no test of the distance.
\<close>

definition ddt_stage :: "('f, 'x) lib \<Rightarrow> 'x args \<Rightarrow> 'x env \<Rightarrow> ('x, unit) run" where
  "ddt_stage L a v =
     (if ddt a then
        andthen (emit (Print ''DDT'')) (\<lambda>_.
        andthen (lookup ''rpe_error'' (rpe_error v)) (\<lambda>e.
        andthen (lookup ''rpe_distance'' (rpe_distance v)) (\<lambda>d.
        andthen (call NpDivide (np_divide L e d)) (\<lambda>q.
        andthen (statistics L (column_norms L (rows_0_3 q))
                   (Some ''Translational'') (verbose a)) (\<lambda>_.
        statistics L (column_norms L (rows_3_6 q))
          (Some ''Rotational'') (verbose a))))))
      else ret ())"

text \<open>Lines 105--155: the metrics, unless \<^verbatim>\<open>--no_metrics\<close> is set.\<close>

definition metrics :: "('f, 'x) lib \<Rightarrow> 'x args \<Rightarrow> 'x env \<Rightarrow> ('x, unit) run" where
  "metrics L a v =
     (if \<not> no_metrics a then
        andthen (ate_horn_stage L a v) (\<lambda>_.
        andthen (ate_manifold_stage L a v) (\<lambda>_.
        andthen (rpe_stage L a v) (\<lambda>v'.
        ddt_stage L a v')))
      else ret ())"

text \<open>
  Lines 157--181: the plot, under \<^verbatim>\<open>--show_plots\<close>.  The roll-pitch-yaw angles are
  computed for every pose although the call that would plot them is commented out.  The
  two lists of timestamps are sorted before they are plotted.
\<close>

definition dict_items :: "'x obj \<Rightarrow> ('x, ('x \<times> 'x matrix) list) run" where
  "dict_items x = (case x of Dict d \<Rightarrow> ret d | _ \<Rightarrow> raise AttributeError)"

fun collect :: "('a \<Rightarrow> ('x, 'b) run) \<Rightarrow> 'a list \<Rightarrow> ('x, 'b list) run" where
  "collect f [] = ret []"
| "collect f (x # xs) =
     andthen (f x) (\<lambda>y. andthen (collect f xs) (\<lambda>ys. ret (y # ys)))"

definition plots :: "('f, 'x) lib \<Rightarrow> 'x args \<Rightarrow> 'x env \<Rightarrow> ('x, unit) run" where
  "plots L a v =
     (if show_plots a then
        andthen (lookup ''gt_poses_align'' (gt_poses_align v)) (\<lambda>gt_data.
        andthen (lookup ''est_poses_align'' (est_poses_align v)) (\<lambda>est_data.
        andthen (dict_items gt_data) (\<lambda>gt_items.
        andthen (dict_items est_data) (\<lambda>est_items.
        andthen (collect (\<lambda>(t, m). ([], xyz_of m)) gt_items) (\<lambda>gt_xyz.
        andthen (collect (\<lambda>(t, m). ([], xyz_of m)) est_items) (\<lambda>est_xyz.
        andthen (collect (\<lambda>(t, m). call RotmToRpy (rotm_to_rpy L (rot_of m))) gt_items)
          (\<lambda>gt_angles.
        andthen (collect (\<lambda>(t, m). call RotmToRpy (rotm_to_rpy L (rot_of m))) est_items)
          (\<lambda>est_angles.
        call Plot2dTrajXyz
          (plot_2d_traj_xyz L (sort_stamps L (map fst gt_items)) gt_xyz
             (sort_stamps L (map fst est_items)) est_xyz True)))))))))
      else ret ())"

text \<open>The script up to the alignment, and the whole script.\<close>

definition prepare :: "('f, 'x) lib \<Rightarrow> 'x args \<Rightarrow> ('x, 'x env) run" where
  "prepare L a =
     andthen (configure L a) (\<lambda>_.
     andthen (load L a) (\<lambda>v0.
     andthen (apply_scale L a v0) (\<lambda>v1.
     andthen (associate L a v1) (\<lambda>v2.
     align L a v2))))"

definition main :: "('f, 'x) lib \<Rightarrow> 'x args \<Rightarrow> ('x, unit) run" where
  "main L a =
     andthen (prepare L a) (\<lambda>v.
     andthen (metrics L a v) (\<lambda>_.
     plots L a v))"

text \<open>
  The script from one of its stages on, given the variables bound so far: from the
  metrics on (lines 105--181), from the alignment on (lines 93--181), from the
  association on (lines 87--181) and from the scaling on (lines 76--181).
\<close>

definition from_metrics :: "('f, 'x) lib \<Rightarrow> 'x args \<Rightarrow> 'x env \<Rightarrow> ('x, unit) run" where
  "from_metrics L a v = andthen (metrics L a v) (\<lambda>_. plots L a v)"

definition from_align :: "('f, 'x) lib \<Rightarrow> 'x args \<Rightarrow> 'x env \<Rightarrow> ('x, unit) run" where
  "from_align L a v = andthen (align L a v) (from_metrics L a)"

definition from_associate :: "('f, 'x) lib \<Rightarrow> 'x args \<Rightarrow> 'x env \<Rightarrow> ('x, unit) run" where
  "from_associate L a v = andthen (associate L a v) (from_align L a)"

definition from_scale :: "('f, 'x) lib \<Rightarrow> 'x args \<Rightarrow> 'x env \<Rightarrow> ('x, unit) run" where
  "from_scale L a v = andthen (apply_scale L a v) (from_associate L a)"

subsection \<open>A concrete run\<close>

text \<open>
  Closed statements about the script need floats and functions to call.  The floats of
  the sample run are written as the expressions that produce them: \<open>Dec m k\<close> is the
  float that \<^verbatim>\<open>float()\<close> makes of the decimal numeral of \<open>m / 10\<^sup>k\<close> (so
  \<open>Dec 2 2\<close> is \<^verbatim>\<open>float('0.02')\<close> and \<open>Dec 0 0\<close> is zero), \<open>Quot x y\<close> is the
  float that \<^verbatim>\<open>np.divide\<close> returns for \<open>x\<close> and \<open>y\<close>, and \<open>Norm xs\<close> is the
  float that \<^verbatim>\<open>np.linalg.norm\<close> returns for the column \<open>xs\<close>.  So a sample run shows
  which divisions and norms are taken, of what, and says nothing of their numeric
  values.  Two expressions may stand for the same float; the script never compares
  floats, and no statement below rests on two expressions being different.
\<close>

datatype sym = Dec int nat | Quot sym sym | Norm "sym list"

text \<open>
  \<open>sample_lib\<close> answers every call: files hold the poses named after them; the
  computed scale is 1, and scaling, association and alignment return the trajectories
  as they are; the ATE reports two pairs; and the RPE reports two pairs, the first over
  a traveled distance of zero.
\<close>

definition pose_at :: "int \<Rightarrow> int \<Rightarrow> int \<Rightarrow> sym matrix" where
  "pose_at x y z =
     [[Dec 1 0, Dec 0 0, Dec 0 0, Dec x 0],
      [Dec 0 0, Dec 1 0, Dec 0 0, Dec y 0],
      [Dec 0 0, Dec 0 0, Dec 1 0, Dec z 0],
      [Dec 0 0, Dec 0 0, Dec 0 0, Dec 1 0]]"

definition sample_traj :: "string \<Rightarrow> sym obj" where
  "sample_traj name =
     (if name = ''gt''
        then Dict [(Dec 0 0, pose_at 0 0 0), (Dec 1 0, pose_at 1 0 0)]
      else if name = ''est''
        then Dict [(Dec 0 0, pose_at 0 0 0), (Dec 1 0, pose_at 1 2 0)]
      else Dict [(Dec 0 0, pose_at 0 0 0)])"

definition sample_ate_error :: "sym emat" where
  "sample_ate_error = [[Dec 0 0, Dec 0 0, Dec 0 0], [Dec 0 0, Dec 2 0, Dec 0 0]]"

definition sample_rpe_error :: "sym emat" where
  "sample_rpe_error =
     [[Dec 1 0, Dec 0 0, Dec 0 0, Dec 0 0, Dec 0 0, Dec 0 0],
      [Dec 6 0, Dec 0 0, Dec 0 0, Dec 0 0, Dec 0 0, Dec 0 0]]"

definition sample_rpe_distance :: "sym list" where
  "sample_rpe_distance = [Dec 0 0, Dec 2 0]"

definition sample_lib :: "(string, sym) lib" where
  "sample_lib =
     \<lparr>set_language = (\<lambda>_. Inr ()),
      set_file_extension = (\<lambda>_. Inr ()),
      read_file_dict = (\<lambda>name. Inr name),
      check_valid_pose_format = (\<lambda>_. Inr ''tum''),
      convert_file_dict_to_pose_dict = (\<lambda>f _. Inr (sample_traj f)),
      compute_scale_from_trajectories = (\<lambda>_ _. Inr (Dec 1 0)),
      scale_dict = (\<lambda>d _ _. Inr d),
      associate_and_filter = (\<lambda>g e _ _ _ _. Inr (g, e)),
      align_trajectories_manifold = (\<lambda>g e _ _. Inr (g, e, pose_at 0 0 0)),
      align_trajectories_horn = (\<lambda>g e _. Inr (g, e, pose_at 0 0 0)),
      align_trajectories_to_first = (\<lambda>g e. Inr (g, e)),
      rotm_to_rpy = (\<lambda>_. Inr [Dec 0 0, Dec 0 0, Dec 0 0]),
      ATE_Horn = (\<lambda>_ _ _. Inr sample_ate_error),
      ATE_SE3 = (\<lambda>_ _ _ _. Inr []),
      RPE = (\<lambda>_ _ _ _ _ _ _. Inr (sample_rpe_error, [], [], sample_rpe_distance)),
      compute_statistics = (\<lambda>_ _ _. Inr ()),
      plot_2d_traj_xyz = (\<lambda>_ _ _ _ _. Inr ()),
      true_divide = Quot,
      vector_norm = Norm,
      sort_stamps = (\<lambda>xs. xs)\<rparr>"

text \<open>
  The same files in the format with covariances: the format is \<^verbatim>\<open>tum_cov\<close> and the
  converter returns the poses together with one \<open>6 \<times> 6\<close> covariance per pose.
\<close>

definition sample_cov :: "sym obj" where
  "sample_cov =
     Dict (map (\<lambda>t. (Dec t 0,
                      map (\<lambda>i. map (\<lambda>j. if i = j then Dec 1 0 else Dec 0 0) [0..<6]) [0..<6]))
             [0, 1])"

definition sample_cov_lib :: "(string, sym) lib" where
  "sample_cov_lib =
     sample_lib\<lparr>check_valid_pose_format := (\<lambda>_. Inr ''tum_cov''),
                convert_file_dict_to_pose_dict := (\<lambda>f _. Inr (Tup (sample_traj f) sample_cov))\<rparr>"

text \<open>The default arguments of the script, on the files \<^verbatim>\<open>gt\<close> and \<^verbatim>\<open>est\<close>.\<close>

definition sample_args :: "sym args" where
  "sample_args =
     \<lparr>gt_file = ''gt'', est_file = ''est'',
      offset = Some (Dec 0 0), offset_initial = Some (Dec 0 0),
      scale = Some (Dec 1 0),
      max_pairs = Some 10000, max_difference = Some (Dec 2 2),
      fixed_delta = False, delta = Some (Dec 1 0), delta_unit = ''m'',
      alignment = ''horn'', plot_lang = ''EN'', plot_format = ''pdf'',
      ate_manifold = False, rpe = False, ddt = False, automatic_scale = False,
      show_plots = False, no_metrics = False, verbose = False,
      ignore_timestamp_match = False, recommended_offset = False\<rparr>"

text \<open>The variables of the run on the sample files once the RPE has been computed.\<close>

definition sample_env :: "sym env" where
  "sample_env =
     \<lparr>gt_format = ''tum'', gt_poses = sample_traj ''gt'', est_poses = sample_traj ''est'',
      gt_cov = None, est_cov = None,
      gt_poses_align = Some (sample_traj ''gt''), est_poses_align = Some (sample_traj ''est''),
      rpe_error = Some sample_rpe_error, rpe_distance = Some sample_rpe_distance\<rparr>"

subsection \<open>Stages of a run\<close>

text \<open>
  The stage an event belongs to, in the order of the script's text: the plotting
  configuration (0), loading (1), scaling (2), association (3), alignment (4), metrics
  (5) and plotting (6).
\<close>

fun fn_stage :: "fn \<Rightarrow> nat" where
  "fn_stage SetLanguage = 0"
| "fn_stage SetFileExtension = 0"
| "fn_stage ReadFileDict = 1"
| "fn_stage CheckValidPoseFormat = 1"
| "fn_stage ConvertFileDict = 1"
| "fn_stage ComputeScale = 2"
| "fn_stage ScaleDict = 2"
| "fn_stage AssociateAndFilter = 3"
| "fn_stage AlignManifold = 4"
| "fn_stage AlignHorn = 4"
| "fn_stage AlignFirst = 4"
| "fn_stage (AteHorn axes) = 5"
| "fn_stage AteSE3 = 5"
| "fn_stage Rpe = 5"
| "fn_stage NpDivide = 5"
| "fn_stage RotmToRpy = 6"
| "fn_stage Plot2dTrajXyz = 6"

fun stage_of :: "'x event \<Rightarrow> nat" where
  "stage_of (Call f) = fn_stage f"
| "stage_of (PrintScale s) = 2"
| "stage_of (Print s) = 5"
| "stage_of (Stats var xs vb) = 5"

text \<open>
  The order the specification gives instead: load, then the Associator, then the
  scale and alignment selection, then the Aligner, then the Metric Engine, then the
  report.  Only association and scaling change places.
\<close>

definition spec_stage_of :: "'x event \<Rightarrow> nat" where
  "spec_stage_of ev =
     (if stage_of ev = 2 then 3 else if stage_of ev = 3 then 2 else stage_of ev)"

text \<open>
  A computation is staged between \<open>lo\<close> and \<open>hi\<close> when its events are in the order
  of their stages and all lie in that range.
\<close>

definition staged :: "nat \<Rightarrow> nat \<Rightarrow> ('x, 'a) run \<Rightarrow> bool" where
  "staged lo hi m =
     (sorted (map stage_of (fst m)) \<and>
      (\<forall>ev \<in> set (fst m). lo \<le> stage_of ev \<and> stage_of ev \<le> hi))"

section \<open>Properties\<close>

subsection \<open>Sequencing\<close>

lemma prepend_pair [simp]: "prepend tr (tr', r) = (tr @ tr', r)"
  by (simp add: prepend_def)

lemma andthen_Inr [simp]: "andthen (tr, Inr x) f = prepend tr (f x)"
  by (simp add: andthen_def)

lemma andthen_Inl [simp]: "andthen (tr, Inl e) f = (tr, Inl e)"
  by (simp add: andthen_def)

lemmas script_defs =
  main_def prepare_def configure_def load_def apply_scale_def associate_def align_def
  metrics_def ate_horn_stage_def ate_horn_block_def ate_manifold_stage_def rpe_stage_def
  ddt_stage_def plots_def statistics_def call_def emit_def ret_def raise_def lookup_def
  py_float_def unpack2_def dict_items_def

lemmas sample_defs =
  sample_lib_def sample_args_def sample_traj_def pose_at_def np_divide_def
  rows_0_3_def rows_3_6_def xyz_of_def ncols_def rot_of_def

subsection \<open>The order of the stages\<close>

lemma staged_then:
  assumes "staged lo k m" and "\<And>x. staged k' hi (f x)"
    and "lo \<le> k" and "k \<le> k'" and "k' \<le> hi"
  shows "staged lo hi (andthen m f)"
proof (cases "snd m")
  case (Inl e)
  then show ?thesis
    using assms(1,3,4,5) by (cases m) (auto simp: staged_def)
next
  case (Inr x)
  then show ?thesis
    using assms(1,3,4,5) assms(2)[of x]
    by (cases m; cases "f x") (force simp: staged_def sorted_append)
qed

lemma staged_step:
  assumes "staged k k m" and "\<And>x. staged k k (f x)"
  shows "staged k k (andthen m f)"
  using assms by (rule staged_then) simp_all

lemma staged_call: "fn_stage f = k \<Longrightarrow> staged k k (call f r)"
  by (simp add: staged_def call_def)

lemma staged_emit: "stage_of ev = k \<Longrightarrow> staged k k (emit ev)"
  by (simp add: staged_def emit_def)

lemma staged_nil [simp]: "staged lo hi ([], r)"
  by (simp add: staged_def)

lemma staged_silent [simp]:
  "staged lo hi (ret x)" "staged lo hi (raise e)" "staged lo hi (lookup n y)"
  "staged lo hi (py_float z)" "staged lo hi (unpack2 w)" "staged lo hi (dict_items u)"
  by (auto simp: ret_def raise_def lookup_def py_float_def unpack2_def dict_items_def
      split: option.splits obj.splits list.splits prod.splits)

lemma staged_statistics: "staged 5 5 (statistics L xs var vb)"
  by (simp add: staged_def statistics_def)

lemma staged_configure: "staged 0 0 (configure L a)"
  unfolding configure_def by (intro staged_step staged_call) simp_all

lemma staged_load: "staged 1 1 (load L a)"
  unfolding load_def by (auto intro!: staged_step staged_call)

lemma staged_apply_scale: "staged 2 2 (apply_scale L a v)"
  unfolding apply_scale_def by (auto intro!: staged_step staged_call staged_emit)

lemma staged_associate: "staged 3 3 (associate L a v)"
  unfolding associate_def by (auto intro!: staged_step staged_call)

lemma staged_align: "staged 4 4 (align L a v)"
  unfolding align_def by (auto intro!: staged_step staged_call)

lemma staged_ate_horn_block: "staged 5 5 (ate_horn_block L a v label axes)"
  unfolding ate_horn_block_def
  by (auto intro!: staged_step staged_call staged_emit staged_statistics)

lemma staged_metrics: "staged 5 5 (metrics L a v)"
  unfolding metrics_def ate_horn_stage_def ate_manifold_stage_def rpe_stage_def ddt_stage_def
  by (auto intro!: staged_step staged_call staged_emit staged_statistics staged_ate_horn_block)

lemma staged_collect:
  assumes "\<And>x. staged k k (f x)"
  shows "staged k k (collect f xs)"
  by (induction xs) (auto intro!: staged_step assms)

lemma staged_plots: "staged 6 6 (plots L a v)"
  unfolding plots_def
  by (auto intro!: staged_step staged_call staged_collect simp: split_def)

lemma staged_prepare: "staged 0 4 (prepare L a)"
  unfolding prepare_def
  by (intro staged_then[of 0 0 _ 1 4] staged_then[of 1 1 _ 2 4] staged_then[of 2 2 _ 3 4]
        staged_then[of 3 3 _ 4 4] staged_configure staged_load staged_apply_scale
        staged_associate staged_align) simp_all

lemma staged_main: "staged 0 6 (main L a)"
  unfolding main_def
  by (intro staged_then[of 0 4 _ 5 6] staged_then[of 5 5 _ 6 6] staged_prepare
        staged_metrics staged_plots) simp_all

lemma sample_run:
  "main sample_lib sample_args =
     ([Call SetLanguage, Call SetFileExtension, Call ReadFileDict, Call ReadFileDict,
       Call CheckValidPoseFormat, Call CheckValidPoseFormat, Call ConvertFileDict,
       Call ConvertFileDict, PrintScale (Dec 1 0), Call ScaleDict, Call ScaleDict,
       Call AssociateAndFilter, Call AlignHorn,
       Print ''ATE - Horn'', Call (AteHorn None),
       Stats None (column_norms sample_lib sample_ate_error) False,
       Print ''ATE - Horn - X'', Call (AteHorn (Some ''X'')),
       Stats None (column_norms sample_lib sample_ate_error) False,
       Print ''ATE - Horn - Y'', Call (AteHorn (Some ''Y'')),
       Stats None (column_norms sample_lib sample_ate_error) False,
       Print ''ATE - Horn - Z'', Call (AteHorn (Some ''Z'')),
       Stats None (column_norms sample_lib sample_ate_error) False],
      Inr ())"
  by (simp add: script_defs sample_defs)

subsection \<open>Events and outcomes of the stages\<close>

text \<open>
  The events and the outcome of a sequence, and what each stage can emit.  The scale
  stage, the association and the alignment neither bind nor unbind the variables of the
  metrics, so after them \<^verbatim>\<open>rpe_error\<close> and \<^verbatim>\<open>rpe_distance\<close> are still unbound.
\<close>

lemma fst_prepend [simp]: "fst (prepend tr m) = tr @ fst m"
  by (simp add: prepend_def)

lemma snd_prepend [simp]: "snd (prepend tr m) = snd m"
  by (simp add: prepend_def)

lemma fst_andthen:
  "fst (andthen m f) = (case snd m of Inl e \<Rightarrow> fst m | Inr x \<Rightarrow> fst m @ fst (f x))"
  by (cases m) (auto simp: andthen_def prepend_def split: sum.splits)

lemma snd_andthen:
  "snd (andthen m f) = (case snd m of Inl e \<Rightarrow> Inl e | Inr x \<Rightarrow> snd (f x))"
  by (cases m) (auto simp: andthen_def prepend_def split: sum.splits)

lemma events_andthen:
  assumes "\<forall>ev \<in> set (fst m). P ev" and "\<And>x. snd m = Inr x \<Longrightarrow> \<forall>ev \<in> set (fst (f x)). P ev"
  shows "\<forall>ev \<in> set (fst (andthen m f)). P ev"
  using assms by (auto simp: fst_andthen split: sum.splits)

lemma prepare_events: "ev \<in> set (fst (prepare L a)) \<Longrightarrow> stage_of ev \<le> 4"
  using staged_prepare[of L a] by (simp add: staged_def)

lemma plots_events: "ev \<in> set (fst (plots L a v)) \<Longrightarrow> stage_of ev = 6"
  using staged_plots[of L a v] by (auto simp: staged_def)

lemma metrics_events: "ev \<in> set (fst (metrics L a v)) \<Longrightarrow> stage_of ev = 5"
  using staged_metrics[of L a v] by (auto simp: staged_def)

lemma load_env:
  assumes "snd (load L a) = Inr v"
  shows "gt_poses_align v = None \<and> est_poses_align v = None \<and> rpe_error v = None \<and> rpe_distance v = None"
  using assms unfolding load_def
  by (auto simp: snd_andthen ret_def split: sum.splits if_splits prod.splits)

lemma apply_scale_env:
  assumes "snd (apply_scale L a v) = Inr v'"
  shows "gt_poses_align v' = gt_poses_align v \<and> est_poses_align v' = est_poses_align v
    \<and> rpe_error v' = rpe_error v \<and> rpe_distance v' = rpe_distance v \<and> gt_format v' = gt_format v"
  using assms unfolding apply_scale_def
  by (auto simp: snd_andthen ret_def split: sum.splits if_splits prod.splits)

lemma associate_env:
  assumes "snd (associate L a v) = Inr v'"
  shows "gt_poses_align v' = gt_poses_align v \<and> est_poses_align v' = est_poses_align v
    \<and> rpe_error v' = rpe_error v \<and> rpe_distance v' = rpe_distance v \<and> gt_format v' = gt_format v"
  using assms unfolding associate_def
  by (auto simp: snd_andthen ret_def split: sum.splits if_splits prod.splits)

lemma align_env:
  assumes "snd (align L a v) = Inr v'"
  shows "rpe_error v' = rpe_error v \<and> rpe_distance v' = rpe_distance v"
  using assms unfolding align_def
  by (auto simp: snd_andthen ret_def split: sum.splits if_splits prod.splits)

lemma prepare_env:
  assumes "snd (prepare L a) = Inr v"
  shows "rpe_error v = None \<and> rpe_distance v = None"
  using assms unfolding prepare_def
  by (auto simp: snd_andthen split: sum.splits dest!: load_env apply_scale_env associate_env align_env)

lemma main_cases:
  obtains (prepare_fails) e where "snd (prepare L a) = Inl e"
      and "main L a = (fst (prepare L a), Inl e)"
  | (metrics_fail) v e where "snd (prepare L a) = Inr v" and "snd (metrics L a v) = Inl e"
      and "main L a = (fst (prepare L a) @ fst (metrics L a v), Inl e)"
  | (plotting) v where "snd (prepare L a) = Inr v" and "snd (metrics L a v) = Inr ()"
      and "main L a = (fst (prepare L a) @ fst (metrics L a v) @ fst (plots L a v),
                       snd (plots L a v))"
proof (cases "snd (prepare L a)")
  case (Inl e)
  then have "main L a = (fst (prepare L a), Inl e)"
    by (simp add: main_def andthen_def)
  with Inl show ?thesis by (rule prepare_fails)
next
  case prep: (Inr v)
  show ?thesis
  proof (cases "snd (metrics L a v)")
    case (Inl e)
    with prep have "main L a = (fst (prepare L a) @ fst (metrics L a v), Inl e)"
      by (simp add: main_def andthen_def prepend_def)
    with prep Inl show ?thesis by (rule metrics_fail)
  next
    case (Inr u)
    with prep have "main L a = (fst (prepare L a) @ fst (metrics L a v) @ fst (plots L a v),
                       snd (plots L a v))"
      by (simp add: main_def andthen_def prepend_def)
    with prep Inr show ?thesis by (auto intro: plotting)
  qed
qed

lemma metrics_cases:
  assumes "\<not> no_metrics a"
  obtains (horn_fails) e where "snd (ate_horn_stage L a v) = Inl e"
      and "metrics L a v = (fst (ate_horn_stage L a v), Inl e)"
  | (manifold_fails) e where "snd (ate_horn_stage L a v) = Inr ()"
      and "snd (ate_manifold_stage L a v) = Inl e"
      and "metrics L a v = (fst (ate_horn_stage L a v) @ fst (ate_manifold_stage L a v), Inl e)"
  | (rpe_fails) e where "snd (ate_horn_stage L a v) = Inr ()"
      and "snd (ate_manifold_stage L a v) = Inr ()"
      and "snd (rpe_stage L a v) = Inl e"
      and "metrics L a v = (fst (ate_horn_stage L a v) @ fst (ate_manifold_stage L a v)
             @ fst (rpe_stage L a v), Inl e)"
  | (reaches_ddt) v' where "snd (ate_horn_stage L a v) = Inr ()"
      and "snd (ate_manifold_stage L a v) = Inr ()"
      and "snd (rpe_stage L a v) = Inr v'"
      and "metrics L a v = (fst (ate_horn_stage L a v) @ fst (ate_manifold_stage L a v)
             @ fst (rpe_stage L a v) @ fst (ddt_stage L a v'), snd (ddt_stage L a v'))"
proof (cases "snd (ate_horn_stage L a v)")
  case (Inl e)
  with assms have "metrics L a v = (fst (ate_horn_stage L a v), Inl e)"
    by (simp add: metrics_def andthen_def)
  with Inl show ?thesis by (rule horn_fails)
next
  case horn: (Inr u)
  show ?thesis
  proof (cases "snd (ate_manifold_stage L a v)")
    case (Inl e)
    with assms horn have "metrics L a v =
        (fst (ate_horn_stage L a v) @ fst (ate_manifold_stage L a v), Inl e)"
      by (simp add: metrics_def andthen_def prepend_def)
    with horn Inl show ?thesis by (auto intro: manifold_fails)
  next
    case man: (Inr u')
    show ?thesis
    proof (cases "snd (rpe_stage L a v)")
      case (Inl e)
      with assms horn man have "metrics L a v =
        (fst (ate_horn_stage L a v) @ fst (ate_manifold_stage L a v) @ fst (rpe_stage L a v), Inl e)"
        by (simp add: metrics_def andthen_def prepend_def)
      with horn man Inl show ?thesis by (auto intro: rpe_fails)
    next
      case (Inr v')
      with assms horn man have "metrics L a v = (fst (ate_horn_stage L a v) @ fst (ate_manifold_stage L a v)
             @ fst (rpe_stage L a v) @ fst (ddt_stage L a v'), snd (ddt_stage L a v'))"
        by (simp add: metrics_def andthen_def prepend_def)
      with horn man Inr show ?thesis by (auto intro: reaches_ddt)
    qed
  qed
qed

lemma ate_horn_block_events:
  "ev \<in> set (fst (ate_horn_block L a v label axes)) \<Longrightarrow>
     ev = Print label \<or> ev = Call (AteHorn axes) \<or> (\<exists>xs. ev = Stats None xs (verbose a))"
  unfolding ate_horn_block_def
  by (auto simp: fst_andthen emit_def lookup_def call_def statistics_def ret_def raise_def
      split: sum.splits option.splits)

lemma ate_horn_stage_events:
  "ev \<in> set (fst (ate_horn_stage L a v)) \<Longrightarrow>
     ev \<in> {Print ''ATE - Horn'', Print ''ATE - Horn - X'', Print ''ATE - Horn - Y'',
           Print ''ATE - Horn - Z'', Call (AteHorn None), Call (AteHorn (Some ''X'')),
           Call (AteHorn (Some ''Y'')), Call (AteHorn (Some ''Z''))} \<or>
     (\<exists>xs. ev = Stats None xs (verbose a))"
  unfolding ate_horn_stage_def
  by (auto simp: fst_andthen split: sum.splits dest!: ate_horn_block_events)

lemma ate_manifold_stage_events:
  "ev \<in> set (fst (ate_manifold_stage L a v)) \<Longrightarrow>
     ate_manifold a \<and> (ev = Print ''ATE - Manifold'' \<or> ev = Call AteSE3 \<or> (\<exists>var xs. ev = Stats (Some var) xs (verbose a)))"
  unfolding ate_manifold_stage_def
  by (auto simp: fst_andthen emit_def lookup_def call_def statistics_def ret_def raise_def py_float_def
      split: sum.splits option.splits if_splits)

lemma rpe_stage_events:
  "ev \<in> set (fst (rpe_stage L a v)) \<Longrightarrow>
     rpe a \<and> (ev = Print ''RPE'' \<or> ev = Call Rpe \<or> (\<exists>var xs. ev = Stats (Some var) xs (verbose a)))"
  unfolding rpe_stage_def
  by (auto simp: fst_andthen emit_def lookup_def call_def statistics_def ret_def raise_def py_float_def
      split: sum.splits option.splits if_splits prod.splits)

lemma ddt_stage_events:
  "ev \<in> set (fst (ddt_stage L a v)) \<Longrightarrow>
     ddt a \<and> (ev = Print ''DDT'' \<or> (ev = Call NpDivide \<and> rpe_error v \<noteq> None) \<or> (\<exists>var xs. ev = Stats (Some var) xs (verbose a)))"
  unfolding ddt_stage_def
  by (auto simp: fst_andthen emit_def lookup_def call_def statistics_def ret_def raise_def py_float_def
      split: sum.splits option.splits if_splits prod.splits)

lemma main_event_origin:
  assumes "ev \<in> set (fst (main L a))"
  shows "ev \<in> set (fst (prepare L a)) \<or>
         (\<exists>v. snd (prepare L a) = Inr v \<and>
              (ev \<in> set (fst (metrics L a v)) \<or> ev \<in> set (fst (plots L a v))))"
proof (rule main_cases[where L=L and a=a])
  fix e assume "main L a = (fst (prepare L a), Inl e)"
  with assms show ?thesis by simp
next
  fix v e assume "snd (prepare L a) = Inr v"
    and "main L a = (fst (prepare L a) @ fst (metrics L a v), Inl e)"
  with assms show ?thesis by auto
next
  fix v assume "snd (prepare L a) = Inr v"
    and "main L a = (fst (prepare L a) @ fst (metrics L a v) @ fst (plots L a v),
                       snd (plots L a v))"
  with assms show ?thesis by auto
qed

lemma metrics_event_origin:
  assumes "ev \<in> set (fst (metrics L a v))"
  shows "\<not> no_metrics a \<and>
         (ev \<in> set (fst (ate_horn_stage L a v)) \<or> ev \<in> set (fst (ate_manifold_stage L a v)) \<or>
          ev \<in> set (fst (rpe_stage L a v)) \<or>
          (\<exists>v'. snd (rpe_stage L a v) = Inr v' \<and> ev \<in> set (fst (ddt_stage L a v'))))"
proof (cases "no_metrics a")
  case True
  with assms show ?thesis by (simp add: metrics_def ret_def)
next
  case False
  show ?thesis
    by (rule metrics_cases[where L=L and a=a and v=v, OF False]) (use assms False in auto)
qed

lemma rpe_stage_env:
  assumes "snd (rpe_stage L a v) = Inr v'"
  shows "if rpe a then rpe_error v' \<noteq> None \<and> rpe_distance v' \<noteq> None else v' = v"
  using assms unfolding rpe_stage_def
  by (auto simp: snd_andthen emit_def lookup_def call_def statistics_def ret_def raise_def py_float_def
      split: sum.splits option.splits if_splits prod.splits)

lemma ate_horn_block_done:
  assumes "snd (ate_horn_block L a v label axes) = Inr u"
  shows "\<exists>g e err. gt_poses_align v = Some g \<and> est_poses_align v = Some e \<and>
           ATE_Horn L g e axes = Inr err \<and>
           fst (ate_horn_block L a v label axes) =
             [Print label, Call (AteHorn axes), Stats None (column_norms L err) (verbose a)]"
  using assms unfolding ate_horn_block_def
  by (auto simp: fst_andthen snd_andthen emit_def lookup_def call_def statistics_def ret_def raise_def
      split: sum.splits option.splits)

lemma ate_horn_stage_done:
  assumes "snd (ate_horn_stage L a v) = Inr u"
  shows "\<exists>g e e0 ex ey ez. gt_poses_align v = Some g \<and> est_poses_align v = Some e \<and>
           ATE_Horn L g e None = Inr e0 \<and> ATE_Horn L g e (Some ''X'') = Inr ex \<and>
           ATE_Horn L g e (Some ''Y'') = Inr ey \<and> ATE_Horn L g e (Some ''Z'') = Inr ez \<and>
           fst (ate_horn_stage L a v) =
             [Print ''ATE - Horn'', Call (AteHorn None),
              Stats None (column_norms L e0) (verbose a),
              Print ''ATE - Horn - X'', Call (AteHorn (Some ''X'')),
              Stats None (column_norms L ex) (verbose a),
              Print ''ATE - Horn - Y'', Call (AteHorn (Some ''Y'')),
              Stats None (column_norms L ey) (verbose a),
              Print ''ATE - Horn - Z'', Call (AteHorn (Some ''Z'')),
              Stats None (column_norms L ez) (verbose a)]"
proof -
  let ?b0 = "ate_horn_block L a v ''ATE - Horn'' None"
  let ?bx = "ate_horn_block L a v ''ATE - Horn - X'' (Some ''X'')"
  let ?by = "ate_horn_block L a v ''ATE - Horn - Y'' (Some ''Y'')"
  let ?bz = "ate_horn_block L a v ''ATE - Horn - Z'' (Some ''Z'')"
  from assms have ok: "snd ?b0 = Inr ()" "snd ?bx = Inr ()" "snd ?by = Inr ()" "snd ?bz = Inr ()"
    unfolding ate_horn_stage_def by (auto simp: snd_andthen split: sum.splits)
  then have tr: "fst (ate_horn_stage L a v) = fst ?b0 @ fst ?bx @ fst ?by @ fst ?bz"
    unfolding ate_horn_stage_def by (simp add: fst_andthen snd_andthen)
  from ate_horn_block_done[OF ok(1)] ate_horn_block_done[OF ok(2)]
    ate_horn_block_done[OF ok(3)] ate_horn_block_done[OF ok(4)]
  show ?thesis
    unfolding tr by (elim exE conjE) simp
qed

lemma ate_manifold_stage_done:
  assumes "snd (ate_manifold_stage L a v) = Inr u" and "ate_manifold a"
  shows "Call AteSE3 \<in> set (fst (ate_manifold_stage L a v))"
  using assms unfolding ate_manifold_stage_def
  by (auto simp: fst_andthen snd_andthen emit_def lookup_def call_def statistics_def ret_def raise_def py_float_def
      split: sum.splits option.splits)

lemma rpe_stage_done:
  assumes "snd (rpe_stage L a v) = Inr v'" and "rpe a"
  shows "Call Rpe \<in> set (fst (rpe_stage L a v))"
  using assms unfolding rpe_stage_def
  by (auto simp: fst_andthen snd_andthen emit_def lookup_def call_def statistics_def ret_def raise_def py_float_def
      split: sum.splits option.splits prod.splits)

lemma ddt_stage_done:
  assumes "snd (ddt_stage L a v) = Inr u" and "ddt a"
  shows "Call NpDivide \<in> set (fst (ddt_stage L a v)) \<and> rpe_error v \<noteq> None"
  using assms unfolding ddt_stage_def
  by (auto simp: fst_andthen snd_andthen emit_def lookup_def call_def statistics_def ret_def raise_def py_float_def
      split: sum.splits option.splits prod.splits)

lemma metric_calls_selected:
  assumes "ev \<in> set (fst (main L a))"
  shows "(\<forall>axes. ev = Call (AteHorn axes) \<longrightarrow>
            \<not> no_metrics a \<and> axes \<in> {None, Some ''X'', Some ''Y'', Some ''Z''}) \<and>
         (ev = Call AteSE3 \<longrightarrow> ate_manifold a \<and> \<not> no_metrics a) \<and>
         (ev = Call Rpe \<longrightarrow> rpe a \<and> \<not> no_metrics a) \<and>
         (ev = Call NpDivide \<longrightarrow> ddt a \<and> rpe a \<and> \<not> no_metrics a)"
proof -
  from main_event_origin[OF assms] consider
      (pre) "ev \<in> set (fst (prepare L a))"
    | (met) v where "snd (prepare L a) = Inr v" and "ev \<in> set (fst (metrics L a v))"
    | (plo) v where "ev \<in> set (fst (plots L a v))"
    by blast
  then show ?thesis
  proof cases
    case pre
    from prepare_events[OF this] show ?thesis by auto
  next
    case plo
    from plots_events[OF this] show ?thesis by auto
  next
    case met
    from prepare_env[OF met(1)] have unbound: "rpe_error v = None" by simp
    from metrics_event_origin[OF met(2)] have on: "\<not> no_metrics a"
      and origin: "ev \<in> set (fst (ate_horn_stage L a v)) \<or> ev \<in> set (fst (ate_manifold_stage L a v)) \<or>
          ev \<in> set (fst (rpe_stage L a v)) \<or>
          (\<exists>v'. snd (rpe_stage L a v) = Inr v' \<and> ev \<in> set (fst (ddt_stage L a v')))"
      by simp_all
    from origin consider
        (horn) "ev \<in> set (fst (ate_horn_stage L a v))"
      | (man) "ev \<in> set (fst (ate_manifold_stage L a v))"
      | (rp) "ev \<in> set (fst (rpe_stage L a v))"
      | (dd) v' where "snd (rpe_stage L a v) = Inr v'" and "ev \<in> set (fst (ddt_stage L a v'))"
      by blast
    then show ?thesis
    proof cases
      case horn
      from ate_horn_stage_events[OF this] on show ?thesis by auto
    next
      case man
      from ate_manifold_stage_events[OF this] on show ?thesis by auto
    next
      case rp
      from rpe_stage_events[OF this] on show ?thesis by auto
    next
      case dd
      from ddt_stage_events[OF dd(2)] rpe_stage_env[OF dd(1)] unbound on show ?thesis
        by (auto split: if_splits)
    qed
  qed
qed

lemma metrics_done:
  assumes "snd (metrics L a v) = Inr u" and "\<not> no_metrics a" and "rpe_error v = None"
  shows "Call (AteHorn None) \<in> set (fst (metrics L a v)) \<and>
         Call (AteHorn (Some ''X'')) \<in> set (fst (metrics L a v)) \<and>
         Call (AteHorn (Some ''Y'')) \<in> set (fst (metrics L a v)) \<and>
         Call (AteHorn (Some ''Z'')) \<in> set (fst (metrics L a v)) \<and>
         (ate_manifold a \<longrightarrow> Call AteSE3 \<in> set (fst (metrics L a v))) \<and>
         (rpe a \<longrightarrow> Call Rpe \<in> set (fst (metrics L a v))) \<and>
         (ddt a \<longrightarrow> rpe a \<and> Call NpDivide \<in> set (fst (metrics L a v)))"
proof (rule metrics_cases[where L=L and a=a and v=v, OF assms(2)])
  fix v'
  assume h: "snd (ate_horn_stage L a v) = Inr ()"
    and m: "snd (ate_manifold_stage L a v) = Inr ()"
    and r: "snd (rpe_stage L a v) = Inr v'"
    and eq: "metrics L a v = (fst (ate_horn_stage L a v) @ fst (ate_manifold_stage L a v)
             @ fst (rpe_stage L a v) @ fst (ddt_stage L a v'), snd (ddt_stage L a v'))"
  from eq assms(1) have d: "snd (ddt_stage L a v') = Inr u" by simp
  show ?thesis
    using ate_horn_stage_done[OF h] ate_manifold_stage_done[OF m] rpe_stage_done[OF r]
      ddt_stage_done[OF d] rpe_stage_env[OF r] assms(3)
    by (auto simp: eq split: if_splits)
qed (use assms(1) in auto)

subsection \<open>The order of the stages\<close>

text \<open>
  What a stage has done when it returns, and how far a run has come when it shows an
  event of a later stage.
\<close>

lemma call_step:
  assumes "snd (andthen (call f r) k) = Inr v"
  shows "\<exists>x. r = Inr x \<and> snd (k x) = Inr v \<and>
           fst (andthen (call f r) k) = Call f # fst (k x)"
  using assms by (cases r) (auto simp: call_def andthen_def)

lemma unpack2_step:
  assumes "snd (andthen (unpack2 w) k) = Inr v"
  shows "\<exists>x. snd (unpack2 w) = Inr x \<and> snd (k x) = Inr v \<and>
           fst (andthen (unpack2 w) k) = fst (k x)"
  using assms
  by (cases "snd (unpack2 w)")
    (auto simp: andthen_def unpack2_def ret_def raise_def
      split: obj.splits list.splits prod.splits)

lemma py_float_step:
  assumes "snd (andthen (py_float x) k) = Inr v"
  shows "\<exists>y. x = Some y \<and> snd (k y) = Inr v \<and> andthen (py_float x) k = k y"
  using assms
  by (cases x; cases "k (the x)")
    (auto simp: py_float_def andthen_def ret_def raise_def prepend_def)

lemma lookup_step:
  assumes "snd (andthen (lookup n x) k) = Inr v"
  shows "\<exists>y. x = Some y \<and> snd (k y) = Inr v \<and> andthen (lookup n x) k = k y"
  using assms
  by (cases x; cases "k (the x)")
    (auto simp: lookup_def andthen_def ret_def raise_def prepend_def)

lemma emit_step:
  assumes "snd (andthen (emit ev) k) = Inr v"
  shows "snd (k ()) = Inr v \<and> fst (andthen (emit ev) k) = ev # fst (k ())"
  using assms by (auto simp: emit_def andthen_def)

lemma andthen_ret [simp]: "andthen (ret x) f = f x"
  by (cases "f x") (simp add: ret_def prepend_def)

lemma configure_done:
  assumes "snd (configure L a) = Inr u"
  shows "fst (configure L a) = [Call SetLanguage, Call SetFileExtension]"
  using assms unfolding configure_def
  by (auto simp: fst_andthen snd_andthen call_def split: sum.splits)

lemma load_done:
  assumes "snd (load L a) = Inr v"
  shows "fst (load L a) =
           [Call ReadFileDict, Call ReadFileDict, Call CheckValidPoseFormat,
            Call CheckValidPoseFormat, Call ConvertFileDict, Call ConvertFileDict]"
  using assms unfolding load_def
  by (auto dest!: call_step unpack2_step simp: ret_def split: if_splits prod.splits)

lemma apply_scale_done:
  assumes "snd (apply_scale L a v) = Inr v'"
  shows "\<exists>s. (if automatic_scale a
               then compute_scale_from_trajectories L (gt_poses v) (est_poses v) = Inr s
               else scale a = Some s) \<and>
           scale_dict L (gt_poses v) (PyInt 1) None = Inr (gt_poses v') \<and>
           scale_dict L (est_poses v) (PyFloat s) None = Inr (est_poses v') \<and>
           fst (apply_scale L a v) =
             (if automatic_scale a then [Call ComputeScale] else []) @
             [PrintScale s, Call ScaleDict, Call ScaleDict] @
             (if gt_format v = ''tum_cov'' then [Call ScaleDict, Call ScaleDict] else [])"
  using assms unfolding apply_scale_def
  by (auto dest!: py_float_step call_step emit_step lookup_step simp: ret_def split: if_splits)

lemma associate_done:
  assumes "snd (associate L a v) = Inr v'" and "\<not> ignore_timestamp_match a"
  shows "Call AssociateAndFilter \<in> set (fst (associate L a v))"
  using assms unfolding associate_def
  by (auto simp: fst_andthen snd_andthen lookup_def call_def ret_def raise_def py_float_def
      split: sum.splits option.splits if_splits prod.splits)

lemma associate_result:
  assumes "snd (associate L a v) = Inr v'" and "\<not> ignore_timestamp_match a"
  shows "\<exists>off md oi gp ep. offset a = Some off \<and> max_difference a = Some md \<and>
           offset_initial a = Some oi \<and>
           associate_and_filter L (gt_poses v) (est_poses v) off md oi (recommended_offset a) =
             Inr (gp, ep) \<and>
           gt_poses v' = gp \<and> est_poses v' = ep"
  using assms unfolding associate_def
  by (auto simp: snd_andthen lookup_def call_def ret_def raise_def py_float_def
      split: sum.splits option.splits if_splits prod.splits)

lemma align_done:
  assumes "snd (align L a v) = Inr v'"
  shows "(alignment a = ''manifold'' \<longrightarrow> Call AlignManifold \<in> set (fst (align L a v))) \<and>
         (alignment a = ''horn'' \<longrightarrow> Call AlignHorn \<in> set (fst (align L a v))) \<and>
         (alignment a = ''first'' \<longrightarrow> Call AlignFirst \<in> set (fst (align L a v)))"
  using assms unfolding align_def
  by (auto simp: fst_andthen snd_andthen lookup_def call_def ret_def raise_def
      split: sum.splits option.splits if_splits prod.splits)

lemma reach:
  assumes "ev \<in> set (fst (andthen m f))" and "ev \<notin> set (fst m)"
  shows "\<exists>x. snd m = Inr x \<and> ev \<in> set (fst (f x)) \<and> andthen m f = prepend (fst m) (f x)"
  using assms by (cases "snd m") (auto simp: andthen_def)

lemma prepend_prepend: "prepend tr (prepend tr' m) = prepend (tr @ tr') m"
  by (simp add: prepend_def)

lemma andthen_prepend: "andthen (prepend tr m) f = prepend tr (andthen m f)"
  by (cases m) (auto simp: andthen_def prepend_def split: sum.splits)

lemma stage_events:
  assumes "staged k k m" and "ev \<in> set (fst m)"
  shows "stage_of ev = k"
  using assms by (auto simp: staged_def)

lemma andthen_assoc: "andthen (andthen m f) g = andthen m (\<lambda>x. andthen (f x) g)"
  by (cases m) (auto simp: andthen_def prepend_def split: sum.splits)

lemma main_from_load:
  "main L a = andthen (configure L a) (\<lambda>_. andthen (load L a) (from_scale L a))"
  unfolding main_def prepare_def from_scale_def from_associate_def from_align_def
    from_metrics_def andthen_assoc
  by (rule refl)

lemma past_load:
  assumes "ev \<in> set (fst (main L a))" and "2 \<le> stage_of ev"
  shows "\<exists>v0. snd (configure L a) = Inr () \<and> snd (load L a) = Inr v0 \<and>
           ev \<in> set (fst (from_scale L a v0)) \<and>
           main L a = prepend (fst (configure L a) @ fst (load L a)) (from_scale L a v0)"
proof -
  have "ev \<notin> set (fst (configure L a))"
    using stage_events[OF staged_configure, of ev L a] assms(2) by auto
  from reach[OF assms(1)[unfolded main_from_load] this]
  obtain u where c: "snd (configure L a) = Inr u"
    and ev: "ev \<in> set (fst (andthen (load L a) (from_scale L a)))"
    and eq: "main L a = prepend (fst (configure L a)) (andthen (load L a) (from_scale L a))"
    by (auto simp: main_from_load)
  have "ev \<notin> set (fst (load L a))"
    using stage_events[OF staged_load, of ev L a] assms(2) by auto
  from reach[OF ev this]
  obtain v0 where l: "snd (load L a) = Inr v0" and ev': "ev \<in> set (fst (from_scale L a v0))"
    and eq': "andthen (load L a) (from_scale L a) = prepend (fst (load L a)) (from_scale L a v0)"
    by blast
  have "main L a = prepend (fst (configure L a) @ fst (load L a)) (from_scale L a v0)"
    unfolding eq eq' by (simp add: prepend_prepend)
  with c l ev' show ?thesis by auto
qed

lemma past_scale:
  assumes "ev \<in> set (fst (main L a))" and "3 \<le> stage_of ev"
  shows "\<exists>v0 v1. snd (configure L a) = Inr () \<and> snd (load L a) = Inr v0 \<and>
           snd (apply_scale L a v0) = Inr v1 \<and>
           ev \<in> set (fst (from_associate L a v1)) \<and>
           main L a =
             prepend (fst (configure L a) @ fst (load L a) @ fst (apply_scale L a v0))
               (from_associate L a v1)"
proof -
  from assms(2) have "2 \<le> stage_of ev" by simp
  from past_load[OF assms(1) this] obtain v0 where c: "snd (configure L a) = Inr ()"
    and l: "snd (load L a) = Inr v0" and ev0: "ev \<in> set (fst (from_scale L a v0))"
    and eq: "main L a = prepend (fst (configure L a) @ fst (load L a)) (from_scale L a v0)"
    by blast
  have "ev \<notin> set (fst (apply_scale L a v0))"
    using stage_events[OF staged_apply_scale, of ev L a v0] assms(2) by auto
  from reach[OF ev0[unfolded from_scale_def] this]
  obtain v1 where sc: "snd (apply_scale L a v0) = Inr v1"
    and ev1: "ev \<in> set (fst (from_associate L a v1))"
    and eq': "from_scale L a v0 = prepend (fst (apply_scale L a v0)) (from_associate L a v1)"
    by (auto simp: from_scale_def)
  have "main L a =
             prepend (fst (configure L a) @ fst (load L a) @ fst (apply_scale L a v0))
               (from_associate L a v1)"
    unfolding eq eq' by (simp add: prepend_prepend)
  with c l sc ev1 show ?thesis by blast
qed

lemma past_associate:
  assumes "ev \<in> set (fst (main L a))" and "4 \<le> stage_of ev"
  shows "\<exists>v0 v1 v2. snd (configure L a) = Inr () \<and> snd (load L a) = Inr v0 \<and>
           snd (apply_scale L a v0) = Inr v1 \<and> snd (associate L a v1) = Inr v2 \<and>
           ev \<in> set (fst (from_align L a v2)) \<and>
           main L a =
             prepend (fst (configure L a) @ fst (load L a) @ fst (apply_scale L a v0) @
                      fst (associate L a v1))
               (from_align L a v2)"
proof -
  from assms(2) have "3 \<le> stage_of ev" by simp
  from past_scale[OF assms(1) this] obtain v0 v1 where c: "snd (configure L a) = Inr ()"
    and l: "snd (load L a) = Inr v0" and sc: "snd (apply_scale L a v0) = Inr v1"
    and ev1: "ev \<in> set (fst (from_associate L a v1))"
    and eq: "main L a =
             prepend (fst (configure L a) @ fst (load L a) @ fst (apply_scale L a v0))
               (from_associate L a v1)"
    by blast
  have "ev \<notin> set (fst (associate L a v1))"
    using stage_events[OF staged_associate, of ev L a v1] assms(2) by auto
  from reach[OF ev1[unfolded from_associate_def] this]
  obtain v2 where ok: "snd (associate L a v1) = Inr v2"
    and ev2: "ev \<in> set (fst (from_align L a v2))"
    and eq': "from_associate L a v1 = prepend (fst (associate L a v1)) (from_align L a v2)"
    by (auto simp: from_associate_def)
  have "main L a =
             prepend (fst (configure L a) @ fst (load L a) @ fst (apply_scale L a v0) @
                      fst (associate L a v1))
               (from_align L a v2)"
    unfolding eq eq' by (simp add: prepend_prepend)
  with c l sc ok ev2 show ?thesis by blast
qed

lemma past_align:
  assumes "ev \<in> set (fst (main L a))" and "5 \<le> stage_of ev"
  shows "\<exists>v0 v1 v2 v3. snd (configure L a) = Inr () \<and> snd (load L a) = Inr v0 \<and>
           snd (apply_scale L a v0) = Inr v1 \<and> snd (associate L a v1) = Inr v2 \<and>
           snd (align L a v2) = Inr v3 \<and>
           ev \<in> set (fst (from_metrics L a v3)) \<and>
           main L a =
             prepend (fst (configure L a) @ fst (load L a) @ fst (apply_scale L a v0) @
                      fst (associate L a v1) @ fst (align L a v2))
               (from_metrics L a v3)"
proof -
  from assms(2) have "4 \<le> stage_of ev" by simp
  from past_associate[OF assms(1) this] obtain v0 v1 v2 where c: "snd (configure L a) = Inr ()"
    and l: "snd (load L a) = Inr v0" and sc: "snd (apply_scale L a v0) = Inr v1"
    and ok: "snd (associate L a v1) = Inr v2"
    and ev2: "ev \<in> set (fst (from_align L a v2))"
    and eq: "main L a =
             prepend (fst (configure L a) @ fst (load L a) @ fst (apply_scale L a v0) @
                      fst (associate L a v1))
               (from_align L a v2)"
    by blast
  have "ev \<notin> set (fst (align L a v2))"
    using stage_events[OF staged_align, of ev L a v2] assms(2) by auto
  from reach[OF ev2[unfolded from_align_def] this]
  obtain v3 where al: "snd (align L a v2) = Inr v3"
    and ev3: "ev \<in> set (fst (from_metrics L a v3))"
    and eq': "from_align L a v2 = prepend (fst (align L a v2)) (from_metrics L a v3)"
    by (auto simp: from_align_def)
  have "main L a =
             prepend (fst (configure L a) @ fst (load L a) @ fst (apply_scale L a v0) @
                      fst (associate L a v1) @ fst (align L a v2))
               (from_metrics L a v3)"
    unfolding eq eq' by (simp add: prepend_prepend)
  with c l sc ok al ev3 show ?thesis by blast
qed

lemma past_metrics:
  assumes "ev \<in> set (fst (main L a))" and "6 \<le> stage_of ev"
  shows "\<exists>v0 v1 v2 v3. snd (configure L a) = Inr () \<and> snd (load L a) = Inr v0 \<and>
           snd (apply_scale L a v0) = Inr v1 \<and> snd (associate L a v1) = Inr v2 \<and>
           snd (align L a v2) = Inr v3 \<and> snd (metrics L a v3) = Inr () \<and>
           main L a =
             prepend (fst (configure L a) @ fst (load L a) @ fst (apply_scale L a v0) @
                      fst (associate L a v1) @ fst (align L a v2) @ fst (metrics L a v3))
               (plots L a v3)"
proof -
  from assms(2) have "5 \<le> stage_of ev" by simp
  from past_align[OF assms(1) this] obtain v0 v1 v2 v3 where c: "snd (configure L a) = Inr ()"
    and l: "snd (load L a) = Inr v0" and sc: "snd (apply_scale L a v0) = Inr v1"
    and ok: "snd (associate L a v1) = Inr v2" and al: "snd (align L a v2) = Inr v3"
    and ev3: "ev \<in> set (fst (from_metrics L a v3))"
    and eq: "main L a =
             prepend (fst (configure L a) @ fst (load L a) @ fst (apply_scale L a v0) @
                      fst (associate L a v1) @ fst (align L a v2))
               (from_metrics L a v3)"
    by blast
  have "ev \<notin> set (fst (metrics L a v3))"
    using stage_events[OF staged_metrics, of ev L a v3] assms(2) by auto
  from reach[OF ev3[unfolded from_metrics_def] this]
  have me: "snd (metrics L a v3) = Inr ()"
    and eq': "from_metrics L a v3 = prepend (fst (metrics L a v3)) (plots L a v3)"
    by (auto simp: from_metrics_def)
  have "main L a =
             prepend (fst (configure L a) @ fst (load L a) @ fst (apply_scale L a v0) @
                      fst (associate L a v1) @ fst (align L a v2) @ fst (metrics L a v3))
               (plots L a v3)"
    unfolding eq eq' by (simp add: prepend_prepend)
  with c l sc ok al me show ?thesis by blast
qed

lemma metrics_horn_first:
  assumes "\<not> no_metrics a" and "snd (ate_horn_stage L a v) = Inr ()"
  shows "\<exists>m. metrics L a v = prepend (fst (ate_horn_stage L a v)) m"
proof -
  from assms have "metrics L a v =
      prepend (fst (ate_horn_stage L a v))
        (andthen (ate_manifold_stage L a v) (\<lambda>_. andthen (rpe_stage L a v) (ddt_stage L a)))"
    by (simp add: metrics_def andthen_def)
  then show ?thesis by blast
qed

lemma metrics_horn_done:
  assumes "\<not> no_metrics a" and "snd (metrics L a v) = Inr u"
  shows "snd (ate_horn_stage L a v) = Inr ()"
  using assms by (auto simp: metrics_def snd_andthen split: sum.splits)

lemma shows_past_load:
  assumes ev: "ev \<in> set (fst (main L a))" and st: "2 \<le> stage_of ev"
  shows "(\<exists>v0. snd (load L a) = Inr v0 \<and>
         main L a =
           prepend [Call SetLanguage, Call SetFileExtension, Call ReadFileDict,
                    Call ReadFileDict, Call CheckValidPoseFormat, Call CheckValidPoseFormat,
                    Call ConvertFileDict, Call ConvertFileDict] (from_scale L a v0))"
proof -
  from past_load[OF ev st] obtain v0 where c: "snd (configure L a) = Inr ()"
    and l: "snd (load L a) = Inr v0"
    and eq: "main L a = prepend (fst (configure L a) @ fst (load L a)) (from_scale L a v0)"
    by blast
  from eq have "main L a =
         prepend [Call SetLanguage, Call SetFileExtension, Call ReadFileDict,
                  Call ReadFileDict, Call CheckValidPoseFormat, Call CheckValidPoseFormat,
                  Call ConvertFileDict, Call ConvertFileDict] (from_scale L a v0)"
    unfolding configure_done[OF c] load_done[OF l] by simp
  with l show ?thesis by blast
qed

lemma shows_past_scaling:
  assumes ev: "ev \<in> set (fst (main L a))" and st: "3 \<le> stage_of ev"
  shows "(\<exists>v0 v1 s. snd (load L a) = Inr v0 \<and> snd (apply_scale L a v0) = Inr v1 \<and>
         (if automatic_scale a
          then compute_scale_from_trajectories L (gt_poses v0) (est_poses v0) = Inr s
          else scale a = Some s) \<and>
         scale_dict L (gt_poses v0) (PyInt 1) None = Inr (gt_poses v1) \<and>
         scale_dict L (est_poses v0) (PyFloat s) None = Inr (est_poses v1) \<and>
         main L a =
           prepend ([Call SetLanguage, Call SetFileExtension, Call ReadFileDict,
                     Call ReadFileDict, Call CheckValidPoseFormat, Call CheckValidPoseFormat,
                     Call ConvertFileDict, Call ConvertFileDict] @
                    (if automatic_scale a then [Call ComputeScale] else []) @
                    [PrintScale s, Call ScaleDict, Call ScaleDict] @
                    (if gt_format v0 = ''tum_cov'' then [Call ScaleDict, Call ScaleDict] else []))
             (from_associate L a v1))"
proof -
  from past_scale[OF ev st] obtain v0 v1 where c: "snd (configure L a) = Inr ()"
    and l: "snd (load L a) = Inr v0" and sc: "snd (apply_scale L a v0) = Inr v1"
    and eq: "main L a =
           prepend (fst (configure L a) @ fst (load L a) @ fst (apply_scale L a v0))
             (from_associate L a v1)"
    by blast
  from apply_scale_done[OF sc] obtain s where
    s: "if automatic_scale a
        then compute_scale_from_trajectories L (gt_poses v0) (est_poses v0) = Inr s
        else scale a = Some s"
    and g: "scale_dict L (gt_poses v0) (PyInt 1) None = Inr (gt_poses v1)"
    and e: "scale_dict L (est_poses v0) (PyFloat s) None = Inr (est_poses v1)"
    and tr: "fst (apply_scale L a v0) =
           (if automatic_scale a then [Call ComputeScale] else []) @
           [PrintScale s, Call ScaleDict, Call ScaleDict] @
           (if gt_format v0 = ''tum_cov'' then [Call ScaleDict, Call ScaleDict] else [])"
    by blast
  from eq have "main L a =
         prepend ([Call SetLanguage, Call SetFileExtension, Call ReadFileDict,
                   Call ReadFileDict, Call CheckValidPoseFormat, Call CheckValidPoseFormat,
                   Call ConvertFileDict, Call ConvertFileDict] @
                  (if automatic_scale a then [Call ComputeScale] else []) @
                  [PrintScale s, Call ScaleDict, Call ScaleDict] @
                  (if gt_format v0 = ''tum_cov'' then [Call ScaleDict, Call ScaleDict] else []))
           (from_associate L a v1)"
    unfolding configure_done[OF c] load_done[OF l] tr by simp
  with l sc s g e show ?thesis
    by (intro exI[of _ v0] exI[of _ v1] exI[of _ s] conjI) simp_all
qed

lemma shows_past_association:
  assumes ev: "ev \<in> set (fst (main L a))" and st: "4 \<le> stage_of ev"
  shows "(\<exists>v0 v1 v2. snd (load L a) = Inr v0 \<and> snd (apply_scale L a v0) = Inr v1 \<and>
         snd (associate L a v1) = Inr v2 \<and>
         main L a =
           prepend (fst (configure L a) @ fst (load L a) @ fst (apply_scale L a v0) @
                    fst (associate L a v1))
             (from_align L a v2) \<and>
         (\<not> ignore_timestamp_match a \<longrightarrow>
            Call AssociateAndFilter \<in> set (fst (associate L a v1)) \<and>
            (\<exists>off md oi. offset a = Some off \<and> max_difference a = Some md \<and>
               offset_initial a = Some oi \<and>
               associate_and_filter L (gt_poses v1) (est_poses v1) off md oi
                   (recommended_offset a) =
                 Inr (gt_poses v2, est_poses v2))))"
proof -
  from past_associate[OF ev st] obtain v0 v1 v2
    where l: "snd (load L a) = Inr v0" and sc: "snd (apply_scale L a v0) = Inr v1"
    and ok: "snd (associate L a v1) = Inr v2"
    and eq: "main L a =
         prepend (fst (configure L a) @ fst (load L a) @ fst (apply_scale L a v0) @
                  fst (associate L a v1))
           (from_align L a v2)"
    by blast
  have "Call AssociateAndFilter \<in> set (fst (associate L a v1)) \<and>
          (\<exists>off md oi. offset a = Some off \<and> max_difference a = Some md \<and>
             offset_initial a = Some oi \<and>
             associate_and_filter L (gt_poses v1) (est_poses v1) off md oi
                 (recommended_offset a) =
               Inr (gt_poses v2, est_poses v2))"
    if on: "\<not> ignore_timestamp_match a"
    using associate_done[OF ok on] associate_result[OF ok on] by blast
  with l sc ok eq show ?thesis
    by (intro exI[of _ v0] exI[of _ v1] exI[of _ v2] conjI impI) simp_all
qed

lemma shows_past_alignment:
  assumes ev: "ev \<in> set (fst (main L a))" and st: "5 \<le> stage_of ev"
  shows "(\<exists>v0 v1 v2 v3. snd (load L a) = Inr v0 \<and> snd (apply_scale L a v0) = Inr v1 \<and>
         snd (associate L a v1) = Inr v2 \<and> snd (align L a v2) = Inr v3 \<and>
         main L a =
           prepend (fst (configure L a) @ fst (load L a) @ fst (apply_scale L a v0) @
                    fst (associate L a v1) @ fst (align L a v2))
             (from_metrics L a v3) \<and>
         (alignment a = ''manifold'' \<longrightarrow> Call AlignManifold \<in> set (fst (align L a v2))) \<and>
         (alignment a = ''horn'' \<longrightarrow> Call AlignHorn \<in> set (fst (align L a v2))) \<and>
         (alignment a = ''first'' \<longrightarrow> Call AlignFirst \<in> set (fst (align L a v2))))"
proof -
  from past_align[OF ev st] obtain v0 v1 v2 v3
    where l: "snd (load L a) = Inr v0" and sc: "snd (apply_scale L a v0) = Inr v1"
    and ok: "snd (associate L a v1) = Inr v2" and al: "snd (align L a v2) = Inr v3"
    and eq: "main L a =
         prepend (fst (configure L a) @ fst (load L a) @ fst (apply_scale L a v0) @
                  fst (associate L a v1) @ fst (align L a v2))
           (from_metrics L a v3)"
    by blast
  from align_done[OF al] l sc ok al eq show ?thesis
    by (intro exI[of _ v0] exI[of _ v1] exI[of _ v2] exI[of _ v3] conjI impI) simp_all
qed

lemma shows_past_metrics:
  assumes ev: "ev \<in> set (fst (main L a))" and st: "6 \<le> stage_of ev"
  shows "(\<exists>v0 v1 v2 v3. snd (load L a) = Inr v0 \<and> snd (apply_scale L a v0) = Inr v1 \<and>
         snd (associate L a v1) = Inr v2 \<and> snd (align L a v2) = Inr v3 \<and>
         snd (metrics L a v3) = Inr () \<and>
         main L a =
           prepend (fst (configure L a) @ fst (load L a) @ fst (apply_scale L a v0) @
                    fst (associate L a v1) @ fst (align L a v2) @ fst (metrics L a v3))
             (plots L a v3) \<and>
         (\<not> no_metrics a \<longrightarrow> Call (AteHorn None) \<in> set (fst (metrics L a v3))))"
proof -
  from past_metrics[OF ev st] obtain v0 v1 v2 v3
    where l: "snd (load L a) = Inr v0" and sc: "snd (apply_scale L a v0) = Inr v1"
    and ok: "snd (associate L a v1) = Inr v2" and al: "snd (align L a v2) = Inr v3"
    and me: "snd (metrics L a v3) = Inr ()"
    and eq: "main L a =
         prepend (fst (configure L a) @ fst (load L a) @ fst (apply_scale L a v0) @
                  fst (associate L a v1) @ fst (align L a v2) @ fst (metrics L a v3))
           (plots L a v3)"
    by blast
  have "Call (AteHorn None) \<in> set (fst (metrics L a v3))" if on: "\<not> no_metrics a"
  proof -
    from metrics_horn_done[OF on me] have h: "snd (ate_horn_stage L a v3) = Inr ()" .
    from metrics_horn_first[OF on h] obtain m
      where "metrics L a v3 = prepend (fst (ate_horn_stage L a v3)) m"
      by blast
    moreover from ate_horn_stage_done[OF h]
    have "Call (AteHorn None) \<in> set (fst (ate_horn_stage L a v3))"
      by auto
    ultimately show ?thesis by simp
  qed
  with l sc ok al me eq show ?thesis
    by (intro exI[of _ v0] exI[of _ v1] exI[of _ v2] exI[of _ v3] conjI impI) simp_all
qed

text \<open>
  C3 (as the specification states it).  The claim puts the association before the
  choice and application of the scale.  In the run on the sample files the two calls
  of \<^verbatim>\<open>scale_dict\<close> come before the call of \<^verbatim>\<open>associate_and_filter\<close>, so the events
  are not in the order of the specification's stages.
\<close>

theorem spec_stage_order_fails:
  "\<not> sorted (map spec_stage_of (fst (main sample_lib sample_args)))"
  by (simp add: sample_run spec_stage_of_def)

text \<open>
  C3 (amended).  In every run, whatever the arguments and whatever the called functions
  do, the events are in the order: plotting configuration, load, scale selection and
  scaling, association, alignment, metrics, plot; each stage emits events of its own
  stage only, and no stage is entered before the earlier ones have returned.  A run
  that shows an event of the scaling or of a later stage has read, checked and converted
  both files.  A run that shows an event of the association or of a later stage has
  before that chosen the scale (the computed one under \<^verbatim>\<open>--automatic_scale\<close>, else
  the argument), printed it and scaled the ground truth by 1 and the estimate by the
  scale; what follows these events is the script from the association on, run on the
  scaled trajectories.  A run that shows an event of the alignment or of a later stage
  consists up to there of the events of the configuration, the load, the scaling and the
  association, in this order, each stage run on the variables the one before returned;
  unless bypassed, the association has been called and has returned for the ground truth
  and the estimate that the scaling returned.  Likewise a run that shows an event of the
  metrics or of the plot has called the aligner named by the alignment argument, and one
  that shows an event of the plot has completed the metrics and, unless they are
  bypassed, called the ATE of Horn.
\<close>

theorem stages_in_order:
  fixes L :: "('f, 'x) lib"
  shows "sorted (map stage_of (fst (main L a))) \<and>
   (\<forall>v. stage_of ` set (fst (configure L a)) \<subseteq> {0} \<and>
        stage_of ` set (fst (load L a)) \<subseteq> {1} \<and>
        stage_of ` set (fst (apply_scale L a v)) \<subseteq> {2} \<and>
        stage_of ` set (fst (associate L a v)) \<subseteq> {3} \<and>
        stage_of ` set (fst (align L a v)) \<subseteq> {4} \<and>
        stage_of ` set (fst (metrics L a v)) \<subseteq> {5} \<and>
        stage_of ` set (fst (plots L a v)) \<subseteq> {6}) \<and>
   (\<forall>ev \<in> set (fst (main L a)). 2 \<le> stage_of ev \<longrightarrow>
      (\<exists>v0. snd (load L a) = Inr v0 \<and>
         main L a =
           prepend [Call SetLanguage, Call SetFileExtension, Call ReadFileDict,
                    Call ReadFileDict, Call CheckValidPoseFormat, Call CheckValidPoseFormat,
                    Call ConvertFileDict, Call ConvertFileDict] (from_scale L a v0))) \<and>
   (\<forall>ev \<in> set (fst (main L a)). 3 \<le> stage_of ev \<longrightarrow>
      (\<exists>v0 v1 s. snd (load L a) = Inr v0 \<and> snd (apply_scale L a v0) = Inr v1 \<and>
         (if automatic_scale a
          then compute_scale_from_trajectories L (gt_poses v0) (est_poses v0) = Inr s
          else scale a = Some s) \<and>
         scale_dict L (gt_poses v0) (PyInt 1) None = Inr (gt_poses v1) \<and>
         scale_dict L (est_poses v0) (PyFloat s) None = Inr (est_poses v1) \<and>
         main L a =
           prepend ([Call SetLanguage, Call SetFileExtension, Call ReadFileDict,
                     Call ReadFileDict, Call CheckValidPoseFormat, Call CheckValidPoseFormat,
                     Call ConvertFileDict, Call ConvertFileDict] @
                    (if automatic_scale a then [Call ComputeScale] else []) @
                    [PrintScale s, Call ScaleDict, Call ScaleDict] @
                    (if gt_format v0 = ''tum_cov'' then [Call ScaleDict, Call ScaleDict] else []))
             (from_associate L a v1))) \<and>
   (\<forall>ev \<in> set (fst (main L a)). 4 \<le> stage_of ev \<longrightarrow>
      (\<exists>v0 v1 v2. snd (load L a) = Inr v0 \<and> snd (apply_scale L a v0) = Inr v1 \<and>
         snd (associate L a v1) = Inr v2 \<and>
         main L a =
           prepend (fst (configure L a) @ fst (load L a) @ fst (apply_scale L a v0) @
                    fst (associate L a v1))
             (from_align L a v2) \<and>
         (\<not> ignore_timestamp_match a \<longrightarrow>
            Call AssociateAndFilter \<in> set (fst (associate L a v1)) \<and>
            (\<exists>off md oi. offset a = Some off \<and> max_difference a = Some md \<and>
               offset_initial a = Some oi \<and>
               associate_and_filter L (gt_poses v1) (est_poses v1) off md oi
                   (recommended_offset a) =
                 Inr (gt_poses v2, est_poses v2))))) \<and>
   (\<forall>ev \<in> set (fst (main L a)). 5 \<le> stage_of ev \<longrightarrow>
      (\<exists>v0 v1 v2 v3. snd (load L a) = Inr v0 \<and> snd (apply_scale L a v0) = Inr v1 \<and>
         snd (associate L a v1) = Inr v2 \<and> snd (align L a v2) = Inr v3 \<and>
         main L a =
           prepend (fst (configure L a) @ fst (load L a) @ fst (apply_scale L a v0) @
                    fst (associate L a v1) @ fst (align L a v2))
             (from_metrics L a v3) \<and>
         (alignment a = ''manifold'' \<longrightarrow> Call AlignManifold \<in> set (fst (align L a v2))) \<and>
         (alignment a = ''horn'' \<longrightarrow> Call AlignHorn \<in> set (fst (align L a v2))) \<and>
         (alignment a = ''first'' \<longrightarrow> Call AlignFirst \<in> set (fst (align L a v2))))) \<and>
   (\<forall>ev \<in> set (fst (main L a)). 6 \<le> stage_of ev \<longrightarrow>
      (\<exists>v0 v1 v2 v3. snd (load L a) = Inr v0 \<and> snd (apply_scale L a v0) = Inr v1 \<and>
         snd (associate L a v1) = Inr v2 \<and> snd (align L a v2) = Inr v3 \<and>
         snd (metrics L a v3) = Inr () \<and>
         main L a =
           prepend (fst (configure L a) @ fst (load L a) @ fst (apply_scale L a v0) @
                    fst (associate L a v1) @ fst (align L a v2) @ fst (metrics L a v3))
             (plots L a v3) \<and>
         (\<not> no_metrics a \<longrightarrow> Call (AteHorn None) \<in> set (fst (metrics L a v3)))))"
proof -
  have order: "sorted (map stage_of (fst (main L a)))"
    using staged_main[of L a] by (simp add: staged_def)
  have own: "\<forall>v. stage_of ` set (fst (configure L a)) \<subseteq> {0} \<and>
        stage_of ` set (fst (load L a)) \<subseteq> {1} \<and>
        stage_of ` set (fst (apply_scale L a v)) \<subseteq> {2} \<and>
        stage_of ` set (fst (associate L a v)) \<subseteq> {3} \<and>
        stage_of ` set (fst (align L a v)) \<subseteq> {4} \<and>
        stage_of ` set (fst (metrics L a v)) \<subseteq> {5} \<and>
        stage_of ` set (fst (plots L a v)) \<subseteq> {6}"
    by (auto dest: stage_events[OF staged_configure] stage_events[OF staged_load]
        stage_events[OF staged_apply_scale] stage_events[OF staged_associate]
        stage_events[OF staged_align] stage_events[OF staged_metrics]
        stage_events[OF staged_plots])
  show ?thesis
    apply (intro conjI)
    subgoal by (rule order)
    subgoal by (rule own)
    subgoal by (intro ballI impI, erule (1) shows_past_load)
    subgoal by (intro ballI impI, erule (1) shows_past_scaling)
    subgoal by (intro ballI impI, erule (1) shows_past_association)
    subgoal by (intro ballI impI, erule (1) shows_past_alignment)
    subgoal by (intro ballI impI, erule (1) shows_past_metrics)
    done
qed

text \<open>
  The run on the sample files with \<^verbatim>\<open>--show_plots\<close> calls the plot function, an event
  of stage 6.  Before it the files are loaded, the scale 1.0 of the arguments is printed
  and both trajectories are scaled; then the association is called, then the aligner of
  Horn, and the metrics complete with a call of the ATE of Horn.  On the files with
  covariances the scaling makes four calls before the association.
\<close>

theorem stages_in_order_witness:
  "Call Plot2dTrajXyz \<in> set (fst (main sample_lib (sample_args\<lparr>show_plots := True\<rparr>))) \<and>
   6 \<le> stage_of (Call Plot2dTrajXyz :: sym event) \<and>
   \<not> ignore_timestamp_match (sample_args\<lparr>show_plots := True\<rparr>) \<and>
   alignment (sample_args\<lparr>show_plots := True\<rparr>) = ''horn'' \<and>
   \<not> no_metrics (sample_args\<lparr>show_plots := True\<rparr>) \<and>
   (\<exists>v1. main sample_lib (sample_args\<lparr>show_plots := True\<rparr>) =
      prepend [Call SetLanguage, Call SetFileExtension, Call ReadFileDict,
               Call ReadFileDict, Call CheckValidPoseFormat, Call CheckValidPoseFormat,
               Call ConvertFileDict, Call ConvertFileDict,
               PrintScale (Dec 1 0), Call ScaleDict, Call ScaleDict]
        (from_associate sample_lib (sample_args\<lparr>show_plots := True\<rparr>) v1)) \<and>
   (\<exists>v1. Call AssociateAndFilter \<in>
      set (fst (associate sample_lib (sample_args\<lparr>show_plots := True\<rparr>) v1))) \<and>
   (\<exists>v2. Call AlignHorn \<in> set (fst (align sample_lib (sample_args\<lparr>show_plots := True\<rparr>) v2))) \<and>
   (\<exists>v3. snd (metrics sample_lib (sample_args\<lparr>show_plots := True\<rparr>) v3) = Inr () \<and>
      Call (AteHorn None) \<in> set (fst (metrics sample_lib (sample_args\<lparr>show_plots := True\<rparr>) v3))) \<and>
   Call AssociateAndFilter \<in> set (fst (main sample_cov_lib sample_args)) \<and>
   (\<exists>v1. main sample_cov_lib sample_args =
      prepend [Call SetLanguage, Call SetFileExtension, Call ReadFileDict,
               Call ReadFileDict, Call CheckValidPoseFormat, Call CheckValidPoseFormat,
               Call ConvertFileDict, Call ConvertFileDict,
               PrintScale (Dec 1 0), Call ScaleDict, Call ScaleDict, Call ScaleDict,
               Call ScaleDict]
        (from_associate sample_cov_lib sample_args v1))"
proof -
  let ?a = "sample_args\<lparr>show_plots := True\<rparr>"
  have ev: "Call Plot2dTrajXyz \<in> set (fst (main sample_lib ?a))"
    by (simp add: script_defs sample_defs)
  have st: "3 \<le> stage_of (Call Plot2dTrajXyz :: sym event)"
    "4 \<le> stage_of (Call Plot2dTrajXyz :: sym event)"
    "5 \<le> stage_of (Call Plot2dTrajXyz :: sym event)"
    "6 \<le> stage_of (Call Plot2dTrajXyz :: sym event)"
    by simp_all
  have flags: "\<not> ignore_timestamp_match ?a" "alignment ?a = ''horn''" "\<not> no_metrics ?a"
    "\<not> automatic_scale ?a" "scale ?a = Some (Dec 1 0)"
    by (simp_all add: sample_args_def)
  have fmt: "gt_format v0 = ''tum''" if "snd (load sample_lib ?a) = Inr v0" for v0
    using that by (auto simp: script_defs sample_defs)
  note past_scaling = stages_in_order[of sample_lib ?a,
      THEN conjunct2, THEN conjunct2, THEN conjunct2, THEN conjunct1, rule_format]
  note past_association = stages_in_order[of sample_lib ?a,
      THEN conjunct2, THEN conjunct2, THEN conjunct2, THEN conjunct2, THEN conjunct1,
      rule_format]
  note past_alignment = stages_in_order[of sample_lib ?a,
      THEN conjunct2, THEN conjunct2, THEN conjunct2, THEN conjunct2, THEN conjunct2,
      THEN conjunct1, rule_format]
  note past_metrics = stages_in_order[of sample_lib ?a,
      THEN conjunct2, THEN conjunct2, THEN conjunct2, THEN conjunct2, THEN conjunct2,
      THEN conjunct2, rule_format]
  from past_scaling[OF ev st(1)]
  obtain v0 v1 s where l: "snd (load sample_lib ?a) = Inr v0"
    and s: "if automatic_scale ?a
          then compute_scale_from_trajectories sample_lib (gt_poses v0) (est_poses v0) = Inr s
          else scale ?a = Some s"
    and eq: "main sample_lib ?a =
           prepend ([Call SetLanguage, Call SetFileExtension, Call ReadFileDict,
                     Call ReadFileDict, Call CheckValidPoseFormat, Call CheckValidPoseFormat,
                     Call ConvertFileDict, Call ConvertFileDict] @
                    (if automatic_scale ?a then [Call ComputeScale] else []) @
                    [PrintScale s, Call ScaleDict, Call ScaleDict] @
                    (if gt_format v0 = ''tum_cov'' then [Call ScaleDict, Call ScaleDict] else []))
             (from_associate sample_lib ?a v1)"
    by blast
  from s flags(4,5) have "s = Dec 1 0"
    by simp
  with eq fmt[OF l] flags(4) have scaled: "\<exists>v1. main sample_lib ?a =
      prepend [Call SetLanguage, Call SetFileExtension, Call ReadFileDict,
               Call ReadFileDict, Call CheckValidPoseFormat, Call CheckValidPoseFormat,
               Call ConvertFileDict, Call ConvertFileDict,
               PrintScale (Dec 1 0), Call ScaleDict, Call ScaleDict]
        (from_associate sample_lib ?a v1)"
    by auto
  from past_association[OF ev st(2)] flags(1)
  have associated: "\<exists>v1. Call AssociateAndFilter \<in> set (fst (associate sample_lib ?a v1))"
    by blast
  from past_alignment[OF ev st(3)] flags(2)
  have aligned: "\<exists>v2. Call AlignHorn \<in> set (fst (align sample_lib ?a v2))"
    by blast
  from past_metrics[OF ev st(4)] flags(3)
  have measured: "\<exists>v3. snd (metrics sample_lib ?a v3) = Inr () \<and>
      Call (AteHorn None) \<in> set (fst (metrics sample_lib ?a v3))"
    by blast
  have ev': "Call AssociateAndFilter \<in> set (fst (main sample_cov_lib sample_args))"
    by (simp add: script_defs sample_defs sample_cov_lib_def)
  have st': "3 \<le> stage_of (Call AssociateAndFilter :: sym event)"
    by simp
  have fmt': "gt_format v0 = ''tum_cov''" if "snd (load sample_cov_lib sample_args) = Inr v0" for v0
    using that by (auto simp: script_defs sample_defs sample_cov_lib_def)
  note past_scaling' = stages_in_order[of sample_cov_lib sample_args,
      THEN conjunct2, THEN conjunct2, THEN conjunct2, THEN conjunct1, rule_format]
  from past_scaling'[OF ev' st']
  obtain w0 w1 s' where l': "snd (load sample_cov_lib sample_args) = Inr w0"
    and s': "if automatic_scale sample_args
          then compute_scale_from_trajectories sample_cov_lib (gt_poses w0) (est_poses w0) = Inr s'
          else scale sample_args = Some s'"
    and eq': "main sample_cov_lib sample_args =
           prepend ([Call SetLanguage, Call SetFileExtension, Call ReadFileDict,
                     Call ReadFileDict, Call CheckValidPoseFormat, Call CheckValidPoseFormat,
                     Call ConvertFileDict, Call ConvertFileDict] @
                    (if automatic_scale sample_args then [Call ComputeScale] else []) @
                    [PrintScale s', Call ScaleDict, Call ScaleDict] @
                    (if gt_format w0 = ''tum_cov'' then [Call ScaleDict, Call ScaleDict] else []))
             (from_associate sample_cov_lib sample_args w1)"
    by blast
  from s' have "s' = Dec 1 0"
    by (simp add: sample_args_def)
  with eq' fmt'[OF l'] have scaled': "\<exists>v1. main sample_cov_lib sample_args =
      prepend [Call SetLanguage, Call SetFileExtension, Call ReadFileDict,
               Call ReadFileDict, Call CheckValidPoseFormat, Call CheckValidPoseFormat,
               Call ConvertFileDict, Call ConvertFileDict,
               PrintScale (Dec 1 0), Call ScaleDict, Call ScaleDict, Call ScaleDict,
               Call ScaleDict]
        (from_associate sample_cov_lib sample_args v1)"
    by (auto simp: sample_args_def)
  from ev st(4) flags(1,2,3) scaled associated aligned measured ev' scaled' show ?thesis
    by (intro conjI)
qed

subsection \<open>Which metrics are computed\<close>

lemma main_after_prepare:
  assumes "snd (prepare L a) = Inr v"
  shows "main L a = prepend (fst (prepare L a)) (andthen (metrics L a v) (\<lambda>_. plots L a v))"
  using assms by (simp add: main_def andthen_def)

text \<open>
  C4 (as the specification states it).  The claim makes each of the four metrics depend
  on its own command-line knob.  The script has no option for the ATE of Horn: in the run
  with the default arguments none of \<^verbatim>\<open>--ate_manifold\<close>, \<^verbatim>\<open>--rpe\<close> and \<^verbatim>\<open>--ddt\<close>
  is set, and \<^verbatim>\<open>ATE_Horn\<close> is called all the same, four times.
\<close>

theorem ate_horn_runs_unselected:
  "\<not> ate_manifold sample_args \<and> \<not> rpe sample_args \<and> \<not> ddt sample_args \<and>
   Call (AteHorn None) \<in> set (fst (main sample_lib sample_args)) \<and>
   Call (AteHorn (Some ''X'')) \<in> set (fst (main sample_lib sample_args)) \<and>
   Call (AteHorn (Some ''Y'')) \<in> set (fst (main sample_lib sample_args)) \<and>
   Call (AteHorn (Some ''Z'')) \<in> set (fst (main sample_lib sample_args))"
  by (simp add: sample_run) (simp add: sample_args_def)

text \<open>
  C4 (amended).  In every run, \<^verbatim>\<open>ATE_SE3\<close> is called only if \<^verbatim>\<open>--ate_manifold\<close> is
  set, \<^verbatim>\<open>RPE\<close> only if \<^verbatim>\<open>--rpe\<close> is set, and the DDT division is performed only if
  both \<^verbatim>\<open>--ddt\<close> and \<^verbatim>\<open>--rpe\<close> are set; none of the metric functions is called
  under \<^verbatim>\<open>--no_metrics\<close>, and \<^verbatim>\<open>ATE_Horn\<close> is called with no other axes than none,
  X, Y and Z.  The ATE of Horn has no flag.  When the metrics are not bypassed and the
  stages up to the alignment succeed, the first thing the run does next, if these calls
  return, is: print a header, call \<^verbatim>\<open>ATE_Horn\<close> on the two aligned trajectories and
  hand the column norms of its result to the statistics; and this four times in a row,
  without axes, then with the axes X, Y and Z.  When the metric stage completes, all
  four calls have been made whatever the flags, and each of the other three metrics has
  been computed if its flag is set (a run with \<^verbatim>\<open>--ddt\<close> completes the stage only if
  \<^verbatim>\<open>--rpe\<close> is set as well).
\<close>

theorem metric_selection:
  "(\<forall>axes. Call (AteHorn axes) \<in> set (fst (main L a)) \<longrightarrow>
      \<not> no_metrics a \<and> axes \<in> {None, Some ''X'', Some ''Y'', Some ''Z''}) \<and>
   (Call AteSE3 \<in> set (fst (main L a)) \<longrightarrow> ate_manifold a \<and> \<not> no_metrics a) \<and>
   (Call Rpe \<in> set (fst (main L a)) \<longrightarrow> rpe a \<and> \<not> no_metrics a) \<and>
   (Call NpDivide \<in> set (fst (main L a)) \<longrightarrow> ddt a \<and> rpe a \<and> \<not> no_metrics a) \<and>
   (\<forall>v. snd (prepare L a) = Inr v \<and> \<not> no_metrics a \<and> snd (ate_horn_stage L a v) = Inr () \<longrightarrow>
      (\<exists>g e e0 ex ey ez post.
         gt_poses_align v = Some g \<and> est_poses_align v = Some e \<and>
         ATE_Horn L g e None = Inr e0 \<and> ATE_Horn L g e (Some ''X'') = Inr ex \<and>
         ATE_Horn L g e (Some ''Y'') = Inr ey \<and> ATE_Horn L g e (Some ''Z'') = Inr ez \<and>
         fst (main L a) =
           fst (prepare L a) @
           [Print ''ATE - Horn'', Call (AteHorn None),
            Stats None (column_norms L e0) (verbose a),
            Print ''ATE - Horn - X'', Call (AteHorn (Some ''X'')),
            Stats None (column_norms L ex) (verbose a),
            Print ''ATE - Horn - Y'', Call (AteHorn (Some ''Y'')),
            Stats None (column_norms L ey) (verbose a),
            Print ''ATE - Horn - Z'', Call (AteHorn (Some ''Z'')),
            Stats None (column_norms L ez) (verbose a)] @ post)) \<and>
   (\<forall>v. snd (prepare L a) = Inr v \<and> snd (metrics L a v) = Inr () \<and> \<not> no_metrics a \<longrightarrow>
      Call (AteHorn None) \<in> set (fst (main L a)) \<and>
      Call (AteHorn (Some ''X'')) \<in> set (fst (main L a)) \<and>
      Call (AteHorn (Some ''Y'')) \<in> set (fst (main L a)) \<and>
      Call (AteHorn (Some ''Z'')) \<in> set (fst (main L a)) \<and>
      (ate_manifold a \<longrightarrow> Call AteSE3 \<in> set (fst (main L a))) \<and>
      (rpe a \<longrightarrow> Call Rpe \<in> set (fst (main L a))) \<and>
      (ddt a \<longrightarrow> rpe a \<and> Call NpDivide \<in> set (fst (main L a))))"
proof -
  have completed: "Call (AteHorn None) \<in> set (fst (main L a)) \<and>
      Call (AteHorn (Some ''X'')) \<in> set (fst (main L a)) \<and>
      Call (AteHorn (Some ''Y'')) \<in> set (fst (main L a)) \<and>
      Call (AteHorn (Some ''Z'')) \<in> set (fst (main L a)) \<and>
      (ate_manifold a \<longrightarrow> Call AteSE3 \<in> set (fst (main L a))) \<and>
      (rpe a \<longrightarrow> Call Rpe \<in> set (fst (main L a))) \<and>
      (ddt a \<longrightarrow> rpe a \<and> Call NpDivide \<in> set (fst (main L a)))"
    if p: "snd (prepare L a) = Inr v" and m: "snd (metrics L a v) = Inr ()" and on: "\<not> no_metrics a"
    for v
  proof -
    from p m have tr: "fst (main L a) = fst (prepare L a) @ fst (metrics L a v) @ fst (plots L a v)"
      by (simp add: main_def andthen_def prepend_def)
    from prepare_env[OF p] have "rpe_error v = None" by simp
    from metrics_done[OF m on this] show ?thesis by (simp add: tr)
  qed
  have first: "\<exists>g e e0 ex ey ez post.
         gt_poses_align v = Some g \<and> est_poses_align v = Some e \<and>
         ATE_Horn L g e None = Inr e0 \<and> ATE_Horn L g e (Some ''X'') = Inr ex \<and>
         ATE_Horn L g e (Some ''Y'') = Inr ey \<and> ATE_Horn L g e (Some ''Z'') = Inr ez \<and>
         fst (main L a) =
           fst (prepare L a) @
           [Print ''ATE - Horn'', Call (AteHorn None),
            Stats None (column_norms L e0) (verbose a),
            Print ''ATE - Horn - X'', Call (AteHorn (Some ''X'')),
            Stats None (column_norms L ex) (verbose a),
            Print ''ATE - Horn - Y'', Call (AteHorn (Some ''Y'')),
            Stats None (column_norms L ey) (verbose a),
            Print ''ATE - Horn - Z'', Call (AteHorn (Some ''Z'')),
            Stats None (column_norms L ez) (verbose a)] @ post"
    if p: "snd (prepare L a) = Inr v" and on: "\<not> no_metrics a"
      and h: "snd (ate_horn_stage L a v) = Inr ()" for v
  proof -
    from metrics_horn_first[OF on h] obtain m
      where m: "metrics L a v = prepend (fst (ate_horn_stage L a v)) m"
      by blast
    have eq: "fst (main L a) =
        fst (prepare L a) @ fst (ate_horn_stage L a v) @ fst (andthen m (\<lambda>_. plots L a v))"
      by (simp add: main_after_prepare[OF p] m andthen_prepend)
    from ate_horn_stage_done[OF h] obtain g e e0 ex ey ez where
      args: "gt_poses_align v = Some g" "est_poses_align v = Some e"
        "ATE_Horn L g e None = Inr e0" "ATE_Horn L g e (Some ''X'') = Inr ex"
        "ATE_Horn L g e (Some ''Y'') = Inr ey" "ATE_Horn L g e (Some ''Z'') = Inr ez"
      and tr: "fst (ate_horn_stage L a v) =
           [Print ''ATE - Horn'', Call (AteHorn None),
            Stats None (column_norms L e0) (verbose a),
            Print ''ATE - Horn - X'', Call (AteHorn (Some ''X'')),
            Stats None (column_norms L ex) (verbose a),
            Print ''ATE - Horn - Y'', Call (AteHorn (Some ''Y'')),
            Stats None (column_norms L ey) (verbose a),
            Print ''ATE - Horn - Z'', Call (AteHorn (Some ''Z'')),
            Stats None (column_norms L ez) (verbose a)]"
      by blast
    from eq have "fst (main L a) =
           fst (prepare L a) @
           [Print ''ATE - Horn'', Call (AteHorn None),
            Stats None (column_norms L e0) (verbose a),
            Print ''ATE - Horn - X'', Call (AteHorn (Some ''X'')),
            Stats None (column_norms L ex) (verbose a),
            Print ''ATE - Horn - Y'', Call (AteHorn (Some ''Y'')),
            Stats None (column_norms L ey) (verbose a),
            Print ''ATE - Horn - Z'', Call (AteHorn (Some ''Z'')),
            Stats None (column_norms L ez) (verbose a)] @
           fst (andthen m (\<lambda>_. plots L a v))"
      unfolding tr .
    with args show ?thesis by blast
  qed
  have horn: "\<forall>axes. Call (AteHorn axes) \<in> set (fst (main L a)) \<longrightarrow>
      \<not> no_metrics a \<and> axes \<in> {None, Some ''X'', Some ''Y'', Some ''Z''}"
  proof (intro allI impI)
    fix axes
    assume "Call (AteHorn axes) \<in> set (fst (main L a))"
    from metric_calls_selected[OF this]
    show "\<not> no_metrics a \<and> axes \<in> {None, Some ''X'', Some ''Y'', Some ''Z''}"
      by blast
  qed
  have se3: "Call AteSE3 \<in> set (fst (main L a)) \<longrightarrow> ate_manifold a \<and> \<not> no_metrics a"
    using metric_calls_selected[of "Call AteSE3" L a] by simp
  have rp: "Call Rpe \<in> set (fst (main L a)) \<longrightarrow> rpe a \<and> \<not> no_metrics a"
    using metric_calls_selected[of "Call Rpe" L a] by simp
  have dd: "Call NpDivide \<in> set (fst (main L a)) \<longrightarrow> ddt a \<and> rpe a \<and> \<not> no_metrics a"
    using metric_calls_selected[of "Call NpDivide" L a] by simp
  from first have c5: "\<forall>v. snd (prepare L a) = Inr v \<and> \<not> no_metrics a \<and>
        snd (ate_horn_stage L a v) = Inr () \<longrightarrow>
      (\<exists>g e e0 ex ey ez post.
         gt_poses_align v = Some g \<and> est_poses_align v = Some e \<and>
         ATE_Horn L g e None = Inr e0 \<and> ATE_Horn L g e (Some ''X'') = Inr ex \<and>
         ATE_Horn L g e (Some ''Y'') = Inr ey \<and> ATE_Horn L g e (Some ''Z'') = Inr ez \<and>
         fst (main L a) =
           fst (prepare L a) @
           [Print ''ATE - Horn'', Call (AteHorn None),
            Stats None (column_norms L e0) (verbose a),
            Print ''ATE - Horn - X'', Call (AteHorn (Some ''X'')),
            Stats None (column_norms L ex) (verbose a),
            Print ''ATE - Horn - Y'', Call (AteHorn (Some ''Y'')),
            Stats None (column_norms L ey) (verbose a),
            Print ''ATE - Horn - Z'', Call (AteHorn (Some ''Z'')),
            Stats None (column_norms L ez) (verbose a)] @ post)"
    by (intro allI impI) (elim conjE)
  from completed have all: "\<forall>v. snd (prepare L a) = Inr v \<and> snd (metrics L a v) = Inr () \<and>
        \<not> no_metrics a \<longrightarrow>
      Call (AteHorn None) \<in> set (fst (main L a)) \<and>
      Call (AteHorn (Some ''X'')) \<in> set (fst (main L a)) \<and>
      Call (AteHorn (Some ''Y'')) \<in> set (fst (main L a)) \<and>
      Call (AteHorn (Some ''Z'')) \<in> set (fst (main L a)) \<and>
      (ate_manifold a \<longrightarrow> Call AteSE3 \<in> set (fst (main L a))) \<and>
      (rpe a \<longrightarrow> Call Rpe \<in> set (fst (main L a))) \<and>
      (ddt a \<longrightarrow> rpe a \<and> Call NpDivide \<in> set (fst (main L a)))"
    by (intro allI impI) (elim conjE)
  show ?thesis
    by (intro conjI horn se3 rp dd c5 all)
qed

text \<open>
  The run on the sample files with the three flags set computes the four metrics, the
  ATE of Horn first and on all four choices of axes.
\<close>

theorem metric_selection_witness:
  "ate_manifold (sample_args\<lparr>ate_manifold := True, rpe := True, ddt := True\<rparr>) \<and>
   rpe (sample_args\<lparr>ate_manifold := True, rpe := True, ddt := True\<rparr>) \<and>
   ddt (sample_args\<lparr>ate_manifold := True, rpe := True, ddt := True\<rparr>) \<and>
   \<not> no_metrics (sample_args\<lparr>ate_manifold := True, rpe := True, ddt := True\<rparr>) \<and>
   (\<exists>v. snd (prepare sample_lib (sample_args\<lparr>ate_manifold := True, rpe := True, ddt := True\<rparr>)) = Inr v \<and>
        snd (ate_horn_stage sample_lib (sample_args\<lparr>ate_manifold := True, rpe := True, ddt := True\<rparr>) v) = Inr () \<and>
        snd (metrics sample_lib (sample_args\<lparr>ate_manifold := True, rpe := True, ddt := True\<rparr>) v) = Inr ()) \<and>
   (\<exists>post. fst (main sample_lib (sample_args\<lparr>ate_manifold := True, rpe := True, ddt := True\<rparr>)) =
      fst (prepare sample_lib (sample_args\<lparr>ate_manifold := True, rpe := True, ddt := True\<rparr>)) @
      [Print ''ATE - Horn'', Call (AteHorn None),
       Stats None (column_norms sample_lib sample_ate_error) False,
       Print ''ATE - Horn - X'', Call (AteHorn (Some ''X'')),
       Stats None (column_norms sample_lib sample_ate_error) False,
       Print ''ATE - Horn - Y'', Call (AteHorn (Some ''Y'')),
       Stats None (column_norms sample_lib sample_ate_error) False,
       Print ''ATE - Horn - Z'', Call (AteHorn (Some ''Z'')),
       Stats None (column_norms sample_lib sample_ate_error) False] @ post) \<and>
   Call AteSE3 \<in> set (fst (main sample_lib (sample_args\<lparr>ate_manifold := True, rpe := True, ddt := True\<rparr>))) \<and>
   Call Rpe \<in> set (fst (main sample_lib (sample_args\<lparr>ate_manifold := True, rpe := True, ddt := True\<rparr>))) \<and>
   Call NpDivide \<in> set (fst (main sample_lib (sample_args\<lparr>ate_manifold := True, rpe := True, ddt := True\<rparr>)))"
proof -
  let ?a = "sample_args\<lparr>ate_manifold := True, rpe := True, ddt := True\<rparr>"
  have completes: "\<exists>v. snd (prepare sample_lib ?a) = Inr v \<and>
      snd (ate_horn_stage sample_lib ?a v) = Inr () \<and> snd (metrics sample_lib ?a v) = Inr ()"
    by (simp add: script_defs sample_defs sample_rpe_error_def sample_rpe_distance_def)
  have flags: "ate_manifold ?a" "rpe ?a" "ddt ?a" "\<not> no_metrics ?a" "\<not> verbose ?a"
    by (simp_all add: sample_args_def)
  have horn: "ATE_Horn sample_lib g e axes = Inr err \<Longrightarrow> err = sample_ate_error" for g e axes err
    by (simp add: sample_lib_def)
  from metric_selection[of sample_lib ?a] completes flags(4)
  obtain g e e0 ex ey ez post where
    "ATE_Horn sample_lib g e None = Inr e0" "ATE_Horn sample_lib g e (Some ''X'') = Inr ex"
    "ATE_Horn sample_lib g e (Some ''Y'') = Inr ey" "ATE_Horn sample_lib g e (Some ''Z'') = Inr ez"
    "fst (main sample_lib ?a) =
           fst (prepare sample_lib ?a) @
           [Print ''ATE - Horn'', Call (AteHorn None),
            Stats None (column_norms sample_lib e0) (verbose ?a),
            Print ''ATE - Horn - X'', Call (AteHorn (Some ''X'')),
            Stats None (column_norms sample_lib ex) (verbose ?a),
            Print ''ATE - Horn - Y'', Call (AteHorn (Some ''Y'')),
            Stats None (column_norms sample_lib ey) (verbose ?a),
            Print ''ATE - Horn - Z'', Call (AteHorn (Some ''Z'')),
            Stats None (column_norms sample_lib ez) (verbose ?a)] @ post"
    by blast
  with flags(5) have first: "\<exists>post. fst (main sample_lib ?a) =
      fst (prepare sample_lib ?a) @
      [Print ''ATE - Horn'', Call (AteHorn None),
       Stats None (column_norms sample_lib sample_ate_error) False,
       Print ''ATE - Horn - X'', Call (AteHorn (Some ''X'')),
       Stats None (column_norms sample_lib sample_ate_error) False,
       Print ''ATE - Horn - Y'', Call (AteHorn (Some ''Y'')),
       Stats None (column_norms sample_lib sample_ate_error) False,
       Print ''ATE - Horn - Z'', Call (AteHorn (Some ''Z'')),
       Stats None (column_norms sample_lib sample_ate_error) False] @ post"
    by (auto dest!: horn)
  from metric_selection[of sample_lib ?a] completes flags
  have "Call AteSE3 \<in> set (fst (main sample_lib ?a)) \<and>
        Call Rpe \<in> set (fst (main sample_lib ?a)) \<and>
        Call NpDivide \<in> set (fst (main sample_lib ?a))"
    by blast
  with completes flags first show ?thesis by blast
qed

subsection \<open>An alignment mode the script does not know\<close>

lemma align_unknown:
  assumes "alignment a \<notin> {''manifold'', ''horn'', ''first''}"
  shows "align L a v = ([], Inr v)"
  using assms by (simp add: align_def ret_def)

lemma staged_prepare_unknown:
  assumes "alignment a \<notin> {''manifold'', ''horn'', ''first''}"
  shows "staged 0 3 (prepare L a)"
  unfolding prepare_def align_unknown[OF assms]
  by (intro staged_then[of 0 0 _ 1 3] staged_then[of 1 1 _ 2 3] staged_then[of 2 2 _ 3 3]
        staged_then[of 3 3 _ 3 3] staged_configure staged_load staged_apply_scale
        staged_associate) simp_all

lemma prepare_unknown_env:
  assumes "alignment a \<notin> {''manifold'', ''horn'', ''first''}" and "snd (prepare L a) = Inr v"
  shows "gt_poses_align v = None \<and> est_poses_align v = None"
  using assms(2) unfolding prepare_def align_unknown[OF assms(1)]
  by (auto simp: snd_andthen split: sum.splits dest!: load_env apply_scale_env associate_env)

lemma metrics_unbound:
  assumes "gt_poses_align v = None" and "\<not> no_metrics a"
  shows "metrics L a v = ([Print ''ATE - Horn''], Inl (NameError ''gt_poses_align''))"
  using assms
  by (simp add: metrics_def ate_horn_stage_def ate_horn_block_def emit_def lookup_def raise_def)

lemma metrics_bypassed: "no_metrics a \<Longrightarrow> metrics L a v = ([], Inr ())"
  by (simp add: metrics_def ret_def)

lemma plots_unbound:
  assumes "gt_poses_align v = None" and "show_plots a"
  shows "plots L a v = ([], Inl (NameError ''gt_poses_align''))"
  using assms by (simp add: plots_def lookup_def raise_def)

lemma plots_off: "\<not> show_plots a \<Longrightarrow> plots L a v = ([], Inr ())"
  by (simp add: plots_def ret_def)

text \<open>
  C10.  Let the alignment argument be none of \<^verbatim>\<open>manifold\<close>, \<^verbatim>\<open>horn\<close> and
  \<^verbatim>\<open>first\<close>.  Then no aligner is called and no default is used: the only event a run
  can have beyond the association is the header line of the first metric, so no metric
  function, no statistics and no plot function is ever called.  A run that is to compute
  metrics or to plot never completes.  If the stages up to the alignment succeed, the
  aligned trajectories are unbound; then the metric stage prints its first header and
  fails with \<^verbatim>\<open>NameError\<close> on \<^verbatim>\<open>gt_poses_align\<close>, and under \<^verbatim>\<open>--no_metrics\<close> with
  \<^verbatim>\<open>--show_plots\<close> the plot stage fails with the same error before any output.
\<close>

theorem unknown_alignment_binds_nothing:
  assumes "alignment a \<notin> {''manifold'', ''horn'', ''first''}"
  shows "(\<forall>ev \<in> set (fst (main L a)). stage_of ev \<le> 3 \<or> ev = Print ''ATE - Horn'') \<and>
         (\<not> no_metrics a \<or> show_plots a \<longrightarrow> (\<exists>e. snd (main L a) = Inl e)) \<and>
         (\<forall>v. snd (prepare L a) = Inr v \<longrightarrow>
            gt_poses_align v = None \<and> est_poses_align v = None \<and>
            (\<not> no_metrics a \<longrightarrow>
               main L a = (fst (prepare L a) @ [Print ''ATE - Horn''],
                           Inl (NameError ''gt_poses_align''))) \<and>
            (no_metrics a \<and> show_plots a \<longrightarrow>
               main L a = (fst (prepare L a), Inl (NameError ''gt_poses_align''))))"
proof -
  have pre: "stage_of ev \<le> 3" if "ev \<in> set (fst (prepare L a))" for ev
    using staged_prepare_unknown[OF assms, of L] that by (simp add: staged_def)
  have run: "gt_poses_align v = None \<and> est_poses_align v = None \<and>
            (\<not> no_metrics a \<longrightarrow>
               main L a = (fst (prepare L a) @ [Print ''ATE - Horn''],
                           Inl (NameError ''gt_poses_align''))) \<and>
            (no_metrics a \<and> show_plots a \<longrightarrow>
               main L a = (fst (prepare L a), Inl (NameError ''gt_poses_align''))) \<and>
            (no_metrics a \<and> \<not> show_plots a \<longrightarrow> main L a = (fst (prepare L a), Inr ()))"
    if "snd (prepare L a) = Inr v" for v
    using prepare_unknown_env[OF assms that]
    by (auto simp: main_after_prepare[OF that] metrics_unbound metrics_bypassed plots_unbound plots_off)
  have events: "\<forall>ev \<in> set (fst (main L a)). stage_of ev \<le> 3 \<or> ev = Print ''ATE - Horn''"
  proof (cases "snd (prepare L a)")
    case (Inl e)
    then have "main L a = (fst (prepare L a), Inl e)"
      by (simp add: main_def andthen_def)
    then show ?thesis using pre by simp
  next
    case (Inr v)
    from run[OF this] show ?thesis
      using pre by (cases "no_metrics a"; cases "show_plots a") auto
  qed
  have fails: "\<not> no_metrics a \<or> show_plots a \<longrightarrow> (\<exists>e. snd (main L a) = Inl e)"
  proof (cases "snd (prepare L a)")
    case (Inl e)
    then have "main L a = (fst (prepare L a), Inl e)"
      by (simp add: main_def andthen_def)
    then show ?thesis by simp
  next
    case (Inr v)
    from run[OF this] show ?thesis by (cases "no_metrics a") auto
  qed
  from run have bound: "\<forall>v. snd (prepare L a) = Inr v \<longrightarrow>
            gt_poses_align v = None \<and> est_poses_align v = None \<and>
            (\<not> no_metrics a \<longrightarrow>
               main L a = (fst (prepare L a) @ [Print ''ATE - Horn''],
                           Inl (NameError ''gt_poses_align''))) \<and>
            (no_metrics a \<and> show_plots a \<longrightarrow>
               main L a = (fst (prepare L a), Inl (NameError ''gt_poses_align'')))"
    by blast
  show ?thesis by (intro conjI events fails bound)
qed

text \<open>
  The run on the sample files with the alignment \<^verbatim>\<open>umeyama\<close> ends in that error, right
  after the header of the first metric.
\<close>

theorem unknown_alignment_witness:
  "alignment (sample_args\<lparr>alignment := ''umeyama''\<rparr>) \<notin> {''manifold'', ''horn'', ''first''} \<and>
   snd (main sample_lib (sample_args\<lparr>alignment := ''umeyama''\<rparr>)) = Inl (NameError ''gt_poses_align'') \<and>
   last (fst (main sample_lib (sample_args\<lparr>alignment := ''umeyama''\<rparr>))) = Print ''ATE - Horn''"
proof -
  let ?a = "sample_args\<lparr>alignment := ''umeyama''\<rparr>"
  have unknown: "alignment ?a \<notin> {''manifold'', ''horn'', ''first''}"
    by (simp add: sample_args_def)
  have ok: "snd (prepare sample_lib ?a) = Inr (projr (snd (prepare sample_lib ?a)))"
    by (simp add: script_defs sample_defs)
  have "\<not> no_metrics ?a" by (simp add: sample_args_def)
  with unknown_alignment_binds_nothing[OF unknown, of sample_lib] ok
  have "main sample_lib ?a = (fst (prepare sample_lib ?a) @ [Print ''ATE - Horn''],
                           Inl (NameError ''gt_poses_align''))"
    by blast
  with unknown show ?thesis by simp
qed

subsection \<open>The DDT needs the RPE of the same run\<close>

lemma ddt_stage_unbound:
  assumes "ddt a" and "rpe_error v = None"
  shows "ddt_stage L a v = ([Print ''DDT''], Inl (NameError ''rpe_error''))"
  using assms by (simp add: ddt_stage_def emit_def lookup_def raise_def)

lemma ddt_stage_bound:
  assumes "ddt a" and "rpe_error v = Some err" and "rpe_distance v = Some dst"
  shows "ddt_stage L a v =
     prepend [Print ''DDT'', Call NpDivide]
       (case np_divide L err dst of
          Inl x \<Rightarrow> ([], Inl x)
        | Inr q \<Rightarrow>
            andthen (statistics L (column_norms L (rows_0_3 q)) (Some ''Translational'') (verbose a))
              (\<lambda>_. statistics L (column_norms L (rows_3_6 q)) (Some ''Rotational'') (verbose a)))"
  using assms
  by (simp add: ddt_stage_def emit_def lookup_def ret_def call_def prepend_def andthen_def
      split: sum.splits)

lemma rpe_stage_off: "\<not> rpe a \<Longrightarrow> rpe_stage L a v = ([], Inr v)"
  by (simp add: rpe_stage_def ret_def)

lemma rpe_stage_result:
  assumes "rpe a" and "snd (rpe_stage L a v) = Inr v'"
  shows "\<exists>g e mp dl off err t r dst.
           gt_poses_align v = Some g \<and> est_poses_align v = Some e \<and>
           max_pairs a = Some mp \<and> delta a = Some dl \<and> offset a = Some off \<and>
           RPE L g e mp (fixed_delta a) dl (delta_unit a) off = Inr (err, t, r, dst) \<and>
           v' = v\<lparr>rpe_error := Some err, rpe_distance := Some dst\<rparr>"
  using assms unfolding rpe_stage_def
  by (auto simp: snd_andthen emit_def lookup_def call_def statistics_def ret_def raise_def py_float_def
      split: sum.splits option.splits prod.splits)

lemma ddt_header_origin:
  assumes "Print ''DDT'' \<in> set (fst (main L a))"
  shows "\<exists>v v'. snd (prepare L a) = Inr v \<and> snd (rpe_stage L a v) = Inr v' \<and>
    main L a =
           prepend (fst (prepare L a) @ fst (ate_horn_stage L a v) @ fst (ate_manifold_stage L a v)
                      @ fst (rpe_stage L a v))
             (andthen (ddt_stage L a v') (\<lambda>_. plots L a v))"
proof -
  have "Print ''DDT'' \<notin> set (fst (prepare L a))"
    using prepare_events[of "Print ''DDT''" L a] by auto
  moreover have "Print ''DDT'' \<notin> set (fst (plots L a v))" for v
    using plots_events[of "Print ''DDT''" L a v] by auto
  ultimately obtain v where p: "snd (prepare L a) = Inr v"
    and m: "Print ''DDT'' \<in> set (fst (metrics L a v))"
    using main_event_origin[OF assms] by blast
  have nA: "Print ''DDT'' \<notin> set (fst (ate_horn_stage L a v))"
    using ate_horn_stage_events[of "Print ''DDT''" L a v] by auto
  have nB: "Print ''DDT'' \<notin> set (fst (ate_manifold_stage L a v))"
    using ate_manifold_stage_events[of "Print ''DDT''" L a v] by auto
  have nR: "Print ''DDT'' \<notin> set (fst (rpe_stage L a v))"
    using rpe_stage_events[of "Print ''DDT''" L a v] by auto
  from metrics_event_origin[OF m] nA nB nR
  obtain v' where on: "\<not> no_metrics a" and r: "snd (rpe_stage L a v) = Inr v'"
    by blast
  have "snd (ate_horn_stage L a v) = Inr () \<and> snd (ate_manifold_stage L a v) = Inr () \<and>
        metrics L a v = prepend (fst (ate_horn_stage L a v) @ fst (ate_manifold_stage L a v)
             @ fst (rpe_stage L a v)) (ddt_stage L a v')"
  proof (rule metrics_cases[where L=L and a=a and v=v, OF on])
    fix e assume "metrics L a v = (fst (ate_horn_stage L a v), Inl e)"
    with m nA show ?thesis by simp
  next
    fix e
    assume "metrics L a v = (fst (ate_horn_stage L a v) @ fst (ate_manifold_stage L a v), Inl e)"
    with m nA nB show ?thesis by simp
  next
    fix e assume "snd (rpe_stage L a v) = Inl e"
    with r show ?thesis by simp
  next
    fix v''
    assume "snd (ate_horn_stage L a v) = Inr ()" and "snd (ate_manifold_stage L a v) = Inr ()"
      and "snd (rpe_stage L a v) = Inr v''"
      and "metrics L a v = (fst (ate_horn_stage L a v) @ fst (ate_manifold_stage L a v)
             @ fst (rpe_stage L a v) @ fst (ddt_stage L a v''), snd (ddt_stage L a v''))"
    with r show ?thesis by (simp add: prepend_def)
  qed
  then have h: "snd (ate_horn_stage L a v) = Inr ()" and b: "snd (ate_manifold_stage L a v) = Inr ()"
    and eq: "metrics L a v = prepend (fst (ate_horn_stage L a v) @ fst (ate_manifold_stage L a v)
             @ fst (rpe_stage L a v)) (ddt_stage L a v')"
    by simp_all
  have "main L a =
           prepend (fst (prepare L a) @ fst (ate_horn_stage L a v) @ fst (ate_manifold_stage L a v)
                      @ fst (rpe_stage L a v))
             (andthen (ddt_stage L a v') (\<lambda>_. plots L a v))"
    by (simp add: main_after_prepare[OF p] eq andthen_prepend prepend_prepend)
  with p r show ?thesis by blast
qed

lemma metrics_without_rpe:
  assumes "ddt a" and "\<not> rpe a" and "\<not> no_metrics a" and "rpe_error v = None"
  shows "\<exists>e. snd (metrics L a v) = Inl e"
proof (rule metrics_cases[where L=L and a=a and v=v, OF assms(3)])
  fix v'
  assume r: "snd (rpe_stage L a v) = Inr v'"
    and eq: "metrics L a v = (fst (ate_horn_stage L a v) @ fst (ate_manifold_stage L a v)
             @ fst (rpe_stage L a v) @ fst (ddt_stage L a v'), snd (ddt_stage L a v'))"
  from r assms(2) have "v' = v" by (simp add: rpe_stage_off)
  with eq assms(1,4) show ?thesis by (simp add: ddt_stage_unbound)
qed simp_all

text \<open>
  C2.  Let \<^verbatim>\<open>--ddt\<close> be set.  Without \<^verbatim>\<open>--rpe\<close> the division of the DDT stage
  is never performed, and unless the metrics are bypassed the run never completes; if
  the run reaches the DDT stage, printing its header is the last thing it does, and it
  fails with \<^verbatim>\<open>NameError\<close> on \<^verbatim>\<open>rpe_error\<close>.  With \<^verbatim>\<open>--rpe\<close>, a run that reaches
  the DDT stage has called \<^verbatim>\<open>RPE\<close> on the aligned trajectories, and the DDT stage
  divides the error array that this call returned by the distances that this call
  returned: either the division raises, or the column norms of rows 0--2 and of rows
  3--5 of the quotient are handed to the statistics.
\<close>

theorem ddt_requires_rpe:
  assumes "ddt a"
  shows "(\<not> rpe a \<longrightarrow>
            Call NpDivide \<notin> set (fst (main L a)) \<and>
            (\<not> no_metrics a \<longrightarrow> (\<exists>e. snd (main L a) = Inl e)) \<and>
            (Print ''DDT'' \<in> set (fst (main L a)) \<longrightarrow>
               snd (main L a) = Inl (NameError ''rpe_error'') \<and>
               last (fst (main L a)) = Print ''DDT'')) \<and>
         (rpe a \<longrightarrow> Print ''DDT'' \<in> set (fst (main L a)) \<longrightarrow>
            (\<exists>v g e mp dl off err t r dst tr.
               snd (prepare L a) = Inr v \<and>
               gt_poses_align v = Some g \<and> est_poses_align v = Some e \<and>
               max_pairs a = Some mp \<and> delta a = Some dl \<and> offset a = Some off \<and>
               RPE L g e mp (fixed_delta a) dl (delta_unit a) off = Inr (err, t, r, dst) \<and>
               main L a =
                 prepend (tr @ [Print ''DDT'', Call NpDivide])
                   (case np_divide L err dst of
                      Inl x \<Rightarrow> ([], Inl x)
                    | Inr q \<Rightarrow>
                        andthen (statistics L (column_norms L (rows_0_3 q))
                                   (Some ''Translational'') (verbose a)) (\<lambda>_.
                        andthen (statistics L (column_norms L (rows_3_6 q))
                                   (Some ''Rotational'') (verbose a)) (\<lambda>_.
                        plots L a v)))))"
proof (intro conjI impI)
  assume off: "\<not> rpe a"
  show "Call NpDivide \<notin> set (fst (main L a))"
    using metric_calls_selected[of "Call NpDivide" L a] off by auto
next
  assume off: "\<not> rpe a" and on: "\<not> no_metrics a"
  show "\<exists>e. snd (main L a) = Inl e"
  proof (rule main_cases[where L=L and a=a])
    fix v assume p: "snd (prepare L a) = Inr v" and m: "snd (metrics L a v) = Inr ()"
    from prepare_env[OF p] have "rpe_error v = None" by simp
    from metrics_without_rpe[OF assms off on this, of L] m
    show ?thesis by simp
  qed simp_all
next
  assume off: "\<not> rpe a" and hdr: "Print ''DDT'' \<in> set (fst (main L a))"
  from ddt_header_origin[OF hdr] obtain v v' where p: "snd (prepare L a) = Inr v"
    and r: "snd (rpe_stage L a v) = Inr v'"
    and eq: "main L a =
           prepend (fst (prepare L a) @ fst (ate_horn_stage L a v) @ fst (ate_manifold_stage L a v)
                      @ fst (rpe_stage L a v))
             (andthen (ddt_stage L a v') (\<lambda>_. plots L a v))"
    by blast
  from r off have same: "v' = v" by (simp add: rpe_stage_off)
  from prepare_env[OF p] have "rpe_error v = None" by simp
  then have "ddt_stage L a v = ([Print ''DDT''], Inl (NameError ''rpe_error''))"
    using assms by (simp add: ddt_stage_unbound)
  with eq same show "snd (main L a) = Inl (NameError ''rpe_error'')"
    and "last (fst (main L a)) = Print ''DDT''"
    by simp_all
next
  assume on: "rpe a" and hdr: "Print ''DDT'' \<in> set (fst (main L a))"
  from ddt_header_origin[OF hdr] obtain v v' where p: "snd (prepare L a) = Inr v"
    and r: "snd (rpe_stage L a v) = Inr v'"
    and eq: "main L a =
           prepend (fst (prepare L a) @ fst (ate_horn_stage L a v) @ fst (ate_manifold_stage L a v)
                      @ fst (rpe_stage L a v))
             (andthen (ddt_stage L a v') (\<lambda>_. plots L a v))"
    by blast
  from rpe_stage_result[OF on r] obtain g e mp dl off err t r' dst where
    args: "gt_poses_align v = Some g" "est_poses_align v = Some e"
      "max_pairs a = Some mp" "delta a = Some dl" "offset a = Some off"
    and res: "RPE L g e mp (fixed_delta a) dl (delta_unit a) off = Inr (err, t, r', dst)"
    and v': "v' = v\<lparr>rpe_error := Some err, rpe_distance := Some dst\<rparr>"
    by blast
  have d: "ddt_stage L a v' =
     prepend [Print ''DDT'', Call NpDivide]
       (case np_divide L err dst of
          Inl x \<Rightarrow> ([], Inl x)
        | Inr q \<Rightarrow>
            andthen (statistics L (column_norms L (rows_0_3 q)) (Some ''Translational'') (verbose a))
              (\<lambda>_. statistics L (column_norms L (rows_3_6 q)) (Some ''Rotational'') (verbose a)))"
    by (rule ddt_stage_bound[OF assms]) (simp_all add: v')
  let ?tr = "fst (prepare L a) @ fst (ate_horn_stage L a v) @ fst (ate_manifold_stage L a v)
                      @ fst (rpe_stage L a v)"
  have "main L a =
                 prepend (?tr @ [Print ''DDT'', Call NpDivide])
                   (case np_divide L err dst of
                      Inl x \<Rightarrow> ([], Inl x)
                    | Inr q \<Rightarrow>
                        andthen (statistics L (column_norms L (rows_0_3 q))
                                   (Some ''Translational'') (verbose a)) (\<lambda>_.
                        andthen (statistics L (column_norms L (rows_3_6 q))
                                   (Some ''Rotational'') (verbose a)) (\<lambda>_.
                        plots L a v)))"
    unfolding eq d andthen_prepend prepend_prepend
    by (cases "np_divide L err dst") (simp_all add: andthen_assoc)
  with p args res show "\<exists>v g e mp dl off err t r dst tr.
               snd (prepare L a) = Inr v \<and>
               gt_poses_align v = Some g \<and> est_poses_align v = Some e \<and>
               max_pairs a = Some mp \<and> delta a = Some dl \<and> offset a = Some off \<and>
               RPE L g e mp (fixed_delta a) dl (delta_unit a) off = Inr (err, t, r, dst) \<and>
               main L a =
                 prepend (tr @ [Print ''DDT'', Call NpDivide])
                   (case np_divide L err dst of
                      Inl x \<Rightarrow> ([], Inl x)
                    | Inr q \<Rightarrow>
                        andthen (statistics L (column_norms L (rows_0_3 q))
                                   (Some ''Translational'') (verbose a)) (\<lambda>_.
                        andthen (statistics L (column_norms L (rows_3_6 q))
                                   (Some ''Rotational'') (verbose a)) (\<lambda>_.
                        plots L a v)))"
    by blast
qed

lemma sample_ddt_only:
  "main sample_lib (sample_args\<lparr>ddt := True\<rparr>) =
     ([Call SetLanguage, Call SetFileExtension, Call ReadFileDict, Call ReadFileDict,
       Call CheckValidPoseFormat, Call CheckValidPoseFormat, Call ConvertFileDict,
       Call ConvertFileDict, PrintScale (Dec 1 0), Call ScaleDict, Call ScaleDict,
       Call AssociateAndFilter, Call AlignHorn,
       Print ''ATE - Horn'', Call (AteHorn None),
       Stats None (column_norms sample_lib sample_ate_error) False,
       Print ''ATE - Horn - X'', Call (AteHorn (Some ''X'')),
       Stats None (column_norms sample_lib sample_ate_error) False,
       Print ''ATE - Horn - Y'', Call (AteHorn (Some ''Y'')),
       Stats None (column_norms sample_lib sample_ate_error) False,
       Print ''ATE - Horn - Z'', Call (AteHorn (Some ''Z'')),
       Stats None (column_norms sample_lib sample_ate_error) False,
       Print ''DDT''],
      Inl (NameError ''rpe_error''))"
  by (simp add: script_defs sample_defs)

lemma sample_rpe_ddt:
  "main sample_lib (sample_args\<lparr>rpe := True, ddt := True\<rparr>) =
    ([Call SetLanguage, Call SetFileExtension, Call ReadFileDict, Call ReadFileDict,
       Call CheckValidPoseFormat, Call CheckValidPoseFormat, Call ConvertFileDict,
       Call ConvertFileDict, PrintScale (Dec 1 0), Call ScaleDict, Call ScaleDict,
       Call AssociateAndFilter, Call AlignHorn,
       Print ''ATE - Horn'', Call (AteHorn None),
       Stats None (column_norms sample_lib sample_ate_error) False,
       Print ''ATE - Horn - X'', Call (AteHorn (Some ''X'')),
       Stats None (column_norms sample_lib sample_ate_error) False,
       Print ''ATE - Horn - Y'', Call (AteHorn (Some ''Y'')),
       Stats None (column_norms sample_lib sample_ate_error) False,
       Print ''ATE - Horn - Z'', Call (AteHorn (Some ''Z'')),
       Stats None (column_norms sample_lib sample_ate_error) False,
       Print ''RPE'', Call Rpe,
       Stats (Some ''Translational'')
         [Norm [Dec 1 0, Dec 0 0, Dec 0 0], Norm [Dec 6 0, Dec 0 0, Dec 0 0]] False,
       Stats (Some ''Rotational'')
         [Norm [Dec 0 0, Dec 0 0, Dec 0 0], Norm [Dec 0 0, Dec 0 0, Dec 0 0]] False,
       Print ''DDT'', Call NpDivide,
       Stats (Some ''Translational'')
         [Norm [Quot (Dec 1 0) (Dec 0 0), Quot (Dec 0 0) (Dec 0 0),
                Quot (Dec 0 0) (Dec 0 0)],
          Norm [Quot (Dec 6 0) (Dec 2 0), Quot (Dec 0 0) (Dec 2 0),
                Quot (Dec 0 0) (Dec 2 0)]] False,
       Stats (Some ''Rotational'')
         [Norm [Quot (Dec 0 0) (Dec 0 0), Quot (Dec 0 0) (Dec 0 0),
                Quot (Dec 0 0) (Dec 0 0)],
          Norm [Quot (Dec 0 0) (Dec 2 0), Quot (Dec 0 0) (Dec 2 0),
                Quot (Dec 0 0) (Dec 2 0)]] False],
     Inr ())"
  by (simp add: script_defs sample_defs sample_rpe_error_def sample_rpe_distance_def
      column_norms_def)

text \<open>
  The run on the sample files with \<^verbatim>\<open>--ddt\<close> alone reaches the DDT stage and fails
  there; with \<^verbatim>\<open>--rpe\<close> as well it reaches the DDT stage after the RPE has returned
  its errors and distances.
\<close>

theorem ddt_requires_rpe_witness:
  "ddt (sample_args\<lparr>ddt := True\<rparr>) \<and> \<not> no_metrics (sample_args\<lparr>ddt := True\<rparr>) \<and>
   \<not> rpe (sample_args\<lparr>ddt := True\<rparr>) \<and>
   Print ''DDT'' \<in> set (fst (main sample_lib (sample_args\<lparr>ddt := True\<rparr>))) \<and>
   Call NpDivide \<notin> set (fst (main sample_lib (sample_args\<lparr>ddt := True\<rparr>))) \<and>
   snd (main sample_lib (sample_args\<lparr>ddt := True\<rparr>)) = Inl (NameError ''rpe_error'') \<and>
   ddt (sample_args\<lparr>rpe := True, ddt := True\<rparr>) \<and> rpe (sample_args\<lparr>rpe := True, ddt := True\<rparr>) \<and>
   Print ''DDT'' \<in> set (fst (main sample_lib (sample_args\<lparr>rpe := True, ddt := True\<rparr>))) \<and>
   (\<exists>v g e. snd (prepare sample_lib (sample_args\<lparr>rpe := True, ddt := True\<rparr>)) = Inr v \<and>
      gt_poses_align v = Some g \<and> est_poses_align v = Some e \<and>
      RPE sample_lib g e 10000 False (Dec 1 0) ''m'' (Dec 0 0) = Inr (sample_rpe_error, [], [], sample_rpe_distance))"
proof -
  let ?a = "sample_args\<lparr>ddt := True\<rparr>" and ?b = "sample_args\<lparr>rpe := True, ddt := True\<rparr>"
  have flags: "ddt ?a" "\<not> no_metrics ?a" "\<not> rpe ?a" "ddt ?b" "rpe ?b"
    by (simp_all add: sample_args_def)
  have hdr: "Print ''DDT'' \<in> set (fst (main sample_lib ?a))"
    by (simp add: sample_ddt_only)
  have hdr': "Print ''DDT'' \<in> set (fst (main sample_lib ?b))"
    by (simp add: sample_rpe_ddt)
  from ddt_requires_rpe[OF flags(1), of sample_lib] flags(3) hdr
  have off: "Call NpDivide \<notin> set (fst (main sample_lib ?a))"
    "snd (main sample_lib ?a) = Inl (NameError ''rpe_error'')"
    by blast+
  from ddt_requires_rpe[OF flags(4), of sample_lib] flags(5) hdr'
  obtain v g e mp dl off' err t r dst where "snd (prepare sample_lib ?b) = Inr v"
    "gt_poses_align v = Some g" "est_poses_align v = Some e"
    "max_pairs ?b = Some mp" "delta ?b = Some dl" "offset ?b = Some off'"
    "RPE sample_lib g e mp (fixed_delta ?b) dl (delta_unit ?b) off' = Inr (err, t, r, dst)"
    by blast
  then have "\<exists>v g e. snd (prepare sample_lib ?b) = Inr v \<and>
      gt_poses_align v = Some g \<and> est_poses_align v = Some e \<and>
      RPE sample_lib g e 10000 False (Dec 1 0) ''m'' (Dec 0 0) = Inr (sample_rpe_error, [], [], sample_rpe_distance)"
    by (auto simp: sample_args_def sample_lib_def)
  with flags hdr hdr' off show ?thesis by simp
qed

subsection \<open>The automatic scale\<close>

text \<open>
  No stage but the scaling reads the scale argument, and the scaling overwrites it with
  the computed scale when \<^verbatim>\<open>--automatic_scale\<close> is set.  The argument is still
  converted first: text that is not a float raises \<^verbatim>\<open>ValueError\<close> there, whatever the
  flag.
\<close>

lemma configure_scale [simp]: "configure L (a\<lparr>scale := x\<rparr>) = configure L a"
  by (simp add: configure_def)

lemma load_scale [simp]: "load L (a\<lparr>scale := x\<rparr>) = load L a"
  by (simp add: load_def)

lemma associate_scale [simp]: "associate L (a\<lparr>scale := x\<rparr>) v = associate L a v"
  by (simp add: associate_def cong: if_cong)

lemma align_scale [simp]: "align L (a\<lparr>scale := x\<rparr>) v = align L a v"
  by (simp add: align_def cong: if_cong)

lemma ddt_stage_scale [simp]: "ddt_stage L (a\<lparr>scale := x\<rparr>) = ddt_stage L a"
  by (rule ext) (simp add: ddt_stage_def)

lemma rpe_stage_scale [simp]: "rpe_stage L (a\<lparr>scale := x\<rparr>) v = rpe_stage L a v"
  by (simp add: rpe_stage_def)

lemma ate_manifold_stage_scale [simp]:
  "ate_manifold_stage L (a\<lparr>scale := x\<rparr>) v = ate_manifold_stage L a v"
  by (simp add: ate_manifold_stage_def)

lemma ate_horn_stage_scale [simp]:
  "ate_horn_stage L (a\<lparr>scale := x\<rparr>) v = ate_horn_stage L a v"
  by (simp add: ate_horn_stage_def ate_horn_block_def)

lemma metrics_scale [simp]: "metrics L (a\<lparr>scale := x\<rparr>) v = metrics L a v"
  by (simp add: metrics_def)

lemma plots_scale [simp]: "plots L (a\<lparr>scale := x\<rparr>) v = plots L a v"
  by (simp add: plots_def)

lemma apply_scale_automatic:
  assumes "automatic_scale a"
  shows "apply_scale L (a\<lparr>scale := Some s\<rparr>) v = apply_scale L (a\<lparr>scale := Some s'\<rparr>) v"
  using assms by (simp add: apply_scale_def py_float_def ret_def)

lemma unparsable_scale_raises:
  assumes "scale a = None"
  shows "apply_scale L a v = ([], Inl ValueError)"
  using assms by (simp add: apply_scale_def py_float_def raise_def)

lemma apply_scale_result:
  assumes "apply_scale L a v = (tr, Inr v')"
  shows "\<exists>s gp ep.
           (if automatic_scale a
            then compute_scale_from_trajectories L (gt_poses v) (est_poses v) = Inr s
            else scale a = Some s) \<and>
           PrintScale s \<in> set tr \<and>
           scale_dict L (gt_poses v) (PyInt 1) None = Inr gp \<and>
           scale_dict L (est_poses v) (PyFloat s) None = Inr ep \<and>
           gt_poses v' = gp \<and> est_poses v' = ep \<and> gt_cov v' = gt_cov v \<and>
           (if gt_format v = ''tum_cov''
            then \<exists>ec ec'. est_cov v = Some ec \<and> scale_dict L ec (PyFloat s) (Some True) = Inr ec' \<and>
                   est_cov v' = Some ec'
            else est_cov v' = est_cov v)"
  using assms unfolding apply_scale_def
  by (auto simp: andthen_def prepend_def emit_def lookup_def call_def ret_def raise_def py_float_def
      split: sum.splits option.splits if_splits)

lemma from_scale_unparsable:
  assumes "scale a = None"
  shows "from_scale L a v = ([], Inl ValueError)"
  by (simp add: from_scale_def unparsable_scale_raises[OF assms])

text \<open>
  C5 (as the specification states it).  The claim lets the supplied scale factor have no
  effect on any output once \<^verbatim>\<open>--automatic_scale\<close> is set.  Take two runs on the sample
  files, both with the flag, that differ only in the scale argument: \<^verbatim>\<open>--scale abc\<close>,
  which \<^verbatim>\<open>float()\<close> rejects, and \<^verbatim>\<open>--scale 3\<close>.  The first ends with
  \<^verbatim>\<open>ValueError\<close> after the files are loaded, before any scale is computed or printed;
  the second completes and prints the computed scale.
\<close>

theorem unparsable_scale_stops_automatic_run:
  "automatic_scale (sample_args\<lparr>automatic_scale := True, scale := None\<rparr>) \<and>
   automatic_scale (sample_args\<lparr>automatic_scale := True, scale := Some (Dec 3 0)\<rparr>) \<and>
   main sample_lib (sample_args\<lparr>automatic_scale := True, scale := None\<rparr>) =
     ([Call SetLanguage, Call SetFileExtension, Call ReadFileDict, Call ReadFileDict,
       Call CheckValidPoseFormat, Call CheckValidPoseFormat, Call ConvertFileDict,
       Call ConvertFileDict], Inl ValueError) \<and>
   snd (main sample_lib (sample_args\<lparr>automatic_scale := True, scale := Some (Dec 3 0)\<rparr>)) =
     Inr () \<and>
   PrintScale (Dec 1 0) \<in>
     set (fst (main sample_lib (sample_args\<lparr>automatic_scale := True, scale := Some (Dec 3 0)\<rparr>)))"
  by (simp add: script_defs sample_defs)

text \<open>
  C5 (amended).  Let \<^verbatim>\<open>--automatic_scale\<close> be set.  Two runs that differ only in the
  scale factor given on the command line, both factors being text that \<^verbatim>\<open>float()\<close>
  accepts (any float, also an infinity or a not-a-number), have the same events and the
  same outcome: the same printed scale, the same calls, the same samples handed to the
  statistics.  Whenever the scaling succeeds, the scale it prints and applies to the
  estimated trajectory is the one \<^verbatim>\<open>compute_scale_from_trajectories\<close> returned for
  the two trajectories; in particular a run that gets past the scaling has printed and
  applied the scale computed from the two loaded trajectories.  A scale argument that \<^verbatim>\<open>float()\<close> rejects makes the
  scaling raise \<^verbatim>\<open>ValueError\<close> before anything else: if the files load, the run ends
  there with that error.
\<close>

theorem automatic_scale_overrides_parsed_scale:
  assumes "automatic_scale a"
  shows "main L (a\<lparr>scale := Some s\<rparr>) = main L (a\<lparr>scale := Some s'\<rparr>) \<and>
         (\<forall>v tr v'. apply_scale L (a\<lparr>scale := Some s\<rparr>) v = (tr, Inr v') \<longrightarrow>
            (\<exists>c. compute_scale_from_trajectories L (gt_poses v) (est_poses v) = Inr c \<and>
                 PrintScale c \<in> set tr \<and>
                 scale_dict L (est_poses v) (PyFloat c) None = Inr (est_poses v'))) \<and>
         (\<forall>ev \<in> set (fst (main L (a\<lparr>scale := Some s\<rparr>))). 3 \<le> stage_of ev \<longrightarrow>
            (\<exists>v0 v1 c. snd (load L a) = Inr v0 \<and>
               snd (apply_scale L (a\<lparr>scale := Some s\<rparr>) v0) = Inr v1 \<and>
               compute_scale_from_trajectories L (gt_poses v0) (est_poses v0) = Inr c \<and>
               PrintScale c \<in> set (fst (main L (a\<lparr>scale := Some s\<rparr>))) \<and>
               scale_dict L (est_poses v0) (PyFloat c) None = Inr (est_poses v1))) \<and>
         (\<forall>v. apply_scale L (a\<lparr>scale := None\<rparr>) v = ([], Inl ValueError)) \<and>
         (\<forall>v0. snd (configure L a) = Inr () \<and> snd (load L a) = Inr v0 \<longrightarrow>
            main L (a\<lparr>scale := None\<rparr>) = (fst (configure L a) @ fst (load L a), Inl ValueError))"
proof -
  have same: "main L (a\<lparr>scale := Some s\<rparr>) = main L (a\<lparr>scale := Some s'\<rparr>)"
    by (simp add: main_def prepare_def apply_scale_automatic[OF assms, of L s _ s'])
  have computed: "\<exists>c. compute_scale_from_trajectories L (gt_poses v) (est_poses v) = Inr c \<and>
                 PrintScale c \<in> set tr \<and>
                 scale_dict L (est_poses v) (PyFloat c) None = Inr (est_poses v')"
    if "apply_scale L (a\<lparr>scale := Some s\<rparr>) v = (tr, Inr v')" for v tr v'
    using apply_scale_result[OF that] assms by auto
  have run: "\<exists>v0 v1 c. snd (load L a) = Inr v0 \<and>
               snd (apply_scale L (a\<lparr>scale := Some s\<rparr>) v0) = Inr v1 \<and>
               compute_scale_from_trajectories L (gt_poses v0) (est_poses v0) = Inr c \<and>
               PrintScale c \<in> set (fst (main L (a\<lparr>scale := Some s\<rparr>))) \<and>
               scale_dict L (est_poses v0) (PyFloat c) None = Inr (est_poses v1)"
    if ev: "ev \<in> set (fst (main L (a\<lparr>scale := Some s\<rparr>)))" and st: "3 \<le> stage_of ev" for ev
  proof -
    let ?a = "a\<lparr>scale := Some s\<rparr>"
    from shows_past_scaling[OF ev st] assms obtain v0 v1 c
      where l: "snd (load L a) = Inr v0" and sc: "snd (apply_scale L ?a v0) = Inr v1"
      and c: "compute_scale_from_trajectories L (gt_poses v0) (est_poses v0) = Inr c"
      and e: "scale_dict L (est_poses v0) (PyFloat c) None = Inr (est_poses v1)"
      and eq: "main L ?a =
           prepend ([Call SetLanguage, Call SetFileExtension, Call ReadFileDict,
                     Call ReadFileDict, Call CheckValidPoseFormat, Call CheckValidPoseFormat,
                     Call ConvertFileDict, Call ConvertFileDict] @
                    (if automatic_scale ?a then [Call ComputeScale] else []) @
                    [PrintScale c, Call ScaleDict, Call ScaleDict] @
                    (if gt_format v0 = ''tum_cov'' then [Call ScaleDict, Call ScaleDict] else []))
             (from_associate L ?a v1)"
      by auto
    have "PrintScale c \<in> set (fst (main L ?a))"
      unfolding eq by simp
    with l sc c e show ?thesis by blast
  qed
  have rejected: "apply_scale L (a\<lparr>scale := None\<rparr>) v = ([], Inl ValueError)" for v
    by (rule unparsable_scale_raises) simp
  have stops: "main L (a\<lparr>scale := None\<rparr>) = (fst (configure L a) @ fst (load L a), Inl ValueError)"
    if "snd (configure L a) = Inr ()" and "snd (load L a) = Inr v0" for v0
    using that
    by (simp add: main_from_load[of L "a\<lparr>scale := None\<rparr>"] from_scale_unparsable andthen_def)
  show ?thesis
    apply (intro conjI)
    subgoal by (rule same)
    subgoal using computed by blast
    subgoal by (intro ballI impI, erule (1) run)
    subgoal using rejected by blast
    subgoal using stops by blast
    done
qed

text \<open>
  On the sample files the computed scale is 1: the runs with the scale arguments 3 and 5
  are equal, and the run with the argument 5 gets past the scaling and prints the scale
  1; with an argument that is no float the run ends with \<^verbatim>\<open>ValueError\<close>.
\<close>

theorem automatic_scale_witness:
  "automatic_scale (sample_args\<lparr>automatic_scale := True\<rparr>) \<and>
   main sample_lib (sample_args\<lparr>automatic_scale := True, scale := Some (Dec 3 0)\<rparr>) =
   main sample_lib (sample_args\<lparr>automatic_scale := True, scale := Some (Dec 5 0)\<rparr>) \<and>
   Call AssociateAndFilter \<in>
     set (fst (main sample_lib (sample_args\<lparr>automatic_scale := True, scale := Some (Dec 5 0)\<rparr>))) \<and>
   PrintScale (Dec 1 0) \<in>
     set (fst (main sample_lib (sample_args\<lparr>automatic_scale := True, scale := Some (Dec 5 0)\<rparr>))) \<and>
   snd (main sample_lib (sample_args\<lparr>automatic_scale := True, scale := None\<rparr>)) = Inl ValueError"
proof -
  let ?a = "sample_args\<lparr>automatic_scale := True\<rparr>"
  have auto: "automatic_scale ?a"
    by simp
  note inst = automatic_scale_overrides_parsed_scale[OF auto, of sample_lib "Dec 5 0" "Dec 3 0"]
  from inst have same: "main sample_lib (?a\<lparr>scale := Some (Dec 3 0)\<rparr>) =
      main sample_lib (?a\<lparr>scale := Some (Dec 5 0)\<rparr>)"
    by simp
  have ev: "Call AssociateAndFilter \<in> set (fst (main sample_lib (?a\<lparr>scale := Some (Dec 5 0)\<rparr>)))"
    by (simp add: script_defs sample_defs)
  have st: "3 \<le> stage_of (Call AssociateAndFilter :: sym event)"
    by simp
  note run = inst[THEN conjunct2, THEN conjunct2, THEN conjunct1, rule_format]
  from run[OF ev st] obtain v0 :: "sym env" and c
    where "compute_scale_from_trajectories sample_lib (gt_poses v0) (est_poses v0) = Inr c"
    and "PrintScale c \<in> set (fst (main sample_lib (?a\<lparr>scale := Some (Dec 5 0)\<rparr>)))"
    by blast
  then have printed: "PrintScale (Dec 1 0) \<in>
      set (fst (main sample_lib (?a\<lparr>scale := Some (Dec 5 0)\<rparr>)))"
    by (simp add: sample_lib_def)
  note stops = inst[THEN conjunct2, THEN conjunct2, THEN conjunct2, THEN conjunct2, rule_format]
  have loads: "\<exists>v0. snd (configure sample_lib ?a) = Inr () \<and> snd (load sample_lib ?a) = Inr v0"
    by (simp add: script_defs sample_defs)
  then obtain v0 where "snd (configure sample_lib ?a) = Inr () \<and> snd (load sample_lib ?a) = Inr v0"
    by blast
  from stops[OF this] have rejected: "snd (main sample_lib (?a\<lparr>scale := None\<rparr>)) = Inl ValueError"
    by simp
  from auto same ev printed rejected show ?thesis
    by simp
qed

subsection \<open>The division of the DDT stage\<close>

lemma np_divide_columns:
  assumes "length err = length dst"
  shows "np_divide L err dst = Inr (map2 (\<lambda>col x. map (\<lambda>y. true_divide L y x) col) err dst)"
  using assms by (simp add: np_divide_def)

lemma ddt_division_origin:
  assumes "Call NpDivide \<in> set (fst (main L a))"
  shows "\<exists>v v'. snd (prepare L a) = Inr v \<and> snd (rpe_stage L a v) = Inr v' \<and>
    main L a =
           prepend (fst (prepare L a) @ fst (ate_horn_stage L a v) @ fst (ate_manifold_stage L a v)
                      @ fst (rpe_stage L a v))
             (andthen (ddt_stage L a v') (\<lambda>_. plots L a v))"
proof -
  have "Call NpDivide \<notin> set (fst (prepare L a))"
    using prepare_events[of "Call NpDivide" L a] by auto
  moreover have "Call NpDivide \<notin> set (fst (plots L a v))" for v
    using plots_events[of "Call NpDivide" L a v] by auto
  ultimately obtain v where p: "snd (prepare L a) = Inr v"
    and m: "Call NpDivide \<in> set (fst (metrics L a v))"
    using main_event_origin[OF assms] by blast
  have nA: "Call NpDivide \<notin> set (fst (ate_horn_stage L a v))"
    using ate_horn_stage_events[of "Call NpDivide" L a v] by auto
  have nB: "Call NpDivide \<notin> set (fst (ate_manifold_stage L a v))"
    using ate_manifold_stage_events[of "Call NpDivide" L a v] by auto
  have nR: "Call NpDivide \<notin> set (fst (rpe_stage L a v))"
    using rpe_stage_events[of "Call NpDivide" L a v] by auto
  from metrics_event_origin[OF m] nA nB nR
  obtain v' where on: "\<not> no_metrics a" and r: "snd (rpe_stage L a v) = Inr v'"
    by blast
  have "snd (ate_horn_stage L a v) = Inr () \<and> snd (ate_manifold_stage L a v) = Inr () \<and>
        metrics L a v = prepend (fst (ate_horn_stage L a v) @ fst (ate_manifold_stage L a v)
             @ fst (rpe_stage L a v)) (ddt_stage L a v')"
  proof (rule metrics_cases[where L=L and a=a and v=v, OF on])
    fix e assume "metrics L a v = (fst (ate_horn_stage L a v), Inl e)"
    with m nA show ?thesis by simp
  next
    fix e
    assume "metrics L a v = (fst (ate_horn_stage L a v) @ fst (ate_manifold_stage L a v), Inl e)"
    with m nA nB show ?thesis by simp
  next
    fix e assume "snd (rpe_stage L a v) = Inl e"
    with r show ?thesis by simp
  next
    fix v''
    assume "snd (ate_horn_stage L a v) = Inr ()" and "snd (ate_manifold_stage L a v) = Inr ()"
      and "snd (rpe_stage L a v) = Inr v''"
      and "metrics L a v = (fst (ate_horn_stage L a v) @ fst (ate_manifold_stage L a v)
             @ fst (rpe_stage L a v) @ fst (ddt_stage L a v''), snd (ddt_stage L a v''))"
    with r show ?thesis by (simp add: prepend_def)
  qed
  then have h: "snd (ate_horn_stage L a v) = Inr ()" and b: "snd (ate_manifold_stage L a v) = Inr ()"
    and eq: "metrics L a v = prepend (fst (ate_horn_stage L a v) @ fst (ate_manifold_stage L a v)
             @ fst (rpe_stage L a v)) (ddt_stage L a v')"
    by simp_all
  have "main L a =
           prepend (fst (prepare L a) @ fst (ate_horn_stage L a v) @ fst (ate_manifold_stage L a v)
                      @ fst (rpe_stage L a v))
             (andthen (ddt_stage L a v') (\<lambda>_. plots L a v))"
    by (simp add: main_after_prepare[OF p] eq andthen_prepend prepend_prepend)
  with p r show ?thesis by blast
qed


lemma ddt_stage_divides:
  assumes "ddt a" and "rpe_error v = Some err" and "rpe_distance v = Some dst"
    and "length err = length dst"
  shows "\<exists>q. np_divide L err dst = Inr q \<and> length q = length err \<and>
           (\<forall>j < length err. q ! j = map (\<lambda>y. true_divide L y (dst ! j)) (err ! j)) \<and>
           length (column_norms L (rows_0_3 q)) = length err \<and>
           length (column_norms L (rows_3_6 q)) = length err \<and>
           (\<forall>j < length err.
              column_norms L (rows_0_3 q) ! j = vector_norm L (take 3 (q ! j)) \<and>
              column_norms L (rows_3_6 q) ! j = vector_norm L (take 3 (drop 3 (q ! j)))) \<and>
           ddt_stage L a v =
             prepend [Print ''DDT'', Call NpDivide]
               (andthen (statistics L (column_norms L (rows_0_3 q))
                           (Some ''Translational'') (verbose a)) (\<lambda>_.
                statistics L (column_norms L (rows_3_6 q)) (Some ''Rotational'') (verbose a)))"
proof -
  let ?q = "map2 (\<lambda>col x. map (\<lambda>y. true_divide L y x) col) err dst"
  have q: "np_divide L err dst = Inr ?q"
    by (rule np_divide_columns[OF assms(4)])
  have len: "length ?q = length err"
    using assms(4) by simp
  have col: "?q ! j = map (\<lambda>y. true_divide L y (dst ! j)) (err ! j)" if "j < length err" for j
    using that assms(4) by simp
  have lens: "length (column_norms L (rows_0_3 ?q)) = length err"
    "length (column_norms L (rows_3_6 ?q)) = length err"
    using assms(4) by (simp_all add: column_norms_def rows_0_3_def rows_3_6_def)
  have norms: "column_norms L (rows_0_3 ?q) ! j = vector_norm L (take 3 (?q ! j)) \<and>
      column_norms L (rows_3_6 ?q) ! j = vector_norm L (take 3 (drop 3 (?q ! j)))"
    if "j < length err" for j
    using that len by (simp add: column_norms_def rows_0_3_def rows_3_6_def)
  have stage: "ddt_stage L a v =
             prepend [Print ''DDT'', Call NpDivide]
               (andthen (statistics L (column_norms L (rows_0_3 ?q))
                           (Some ''Translational'') (verbose a)) (\<lambda>_.
                statistics L (column_norms L (rows_3_6 ?q)) (Some ''Rotational'') (verbose a)))"
    using ddt_stage_bound[OF assms(1,2,3), of L] by (simp add: q)
  show ?thesis
    apply (rule exI[of _ ?q])
    apply (intro conjI allI impI)
    subgoal by (rule q)
    subgoal by (rule len)
    subgoal by (rule col)
    subgoal by (rule lens(1))
    subgoal by (rule lens(2))
    subgoal using norms by blast
    subgoal using norms by blast
    subgoal by (rule stage)
    done
qed

text \<open>
  C1 (as the specification states it).  The claim excludes every pair whose traveled
  distance is 0 from the DDT output.  In the run on the sample files the RPE reports two
  pairs, the first with the distance \<^verbatim>\<open>float('0')\<close>.  The quotient still has two
  columns; the first holds the quotients of the first error vector by that distance, as
  \<^verbatim>\<open>np.divide\<close> returns them, and the norm of its rows 0--2 is the first of the two
  samples handed to the statistics.
\<close>

theorem zero_distance_pair_not_excluded:
  "sample_rpe_distance ! 0 = Dec 0 0 \<and>
   np_divide sample_lib sample_rpe_error sample_rpe_distance =
     Inr [[Quot (Dec 1 0) (Dec 0 0), Quot (Dec 0 0) (Dec 0 0),
           Quot (Dec 0 0) (Dec 0 0), Quot (Dec 0 0) (Dec 0 0),
           Quot (Dec 0 0) (Dec 0 0), Quot (Dec 0 0) (Dec 0 0)],
          [Quot (Dec 6 0) (Dec 2 0), Quot (Dec 0 0) (Dec 2 0),
           Quot (Dec 0 0) (Dec 2 0), Quot (Dec 0 0) (Dec 2 0),
           Quot (Dec 0 0) (Dec 2 0), Quot (Dec 0 0) (Dec 2 0)]] \<and>
   Stats (Some ''Translational'')
     [Norm [Quot (Dec 1 0) (Dec 0 0), Quot (Dec 0 0) (Dec 0 0),
            Quot (Dec 0 0) (Dec 0 0)],
      Norm [Quot (Dec 6 0) (Dec 2 0), Quot (Dec 0 0) (Dec 2 0),
            Quot (Dec 0 0) (Dec 2 0)]] False
     \<in> set (fst (main sample_lib (sample_args\<lparr>rpe := True, ddt := True\<rparr>)))"
  by (simp add: sample_rpe_ddt)
    (simp add: sample_rpe_distance_def sample_rpe_error_def np_divide_def sample_lib_def)

text \<open>
  C1 (amended).  Take a run in which the DDT is computed, that is, one that reaches the
  division of the DDT stage.  Then \<^verbatim>\<open>--ddt\<close> and \<^verbatim>\<open>--rpe\<close> are set, and the
  division is applied to the error array and the distances that the RPE of this run
  returned.  When the RPE has returned one distance per pair, the division does not
  raise and the quotient has one column per pair, none excluded: column \<open>j\<close> is the
  error vector of pair \<open>j\<close> divided element-wise, as \<^verbatim>\<open>np.divide\<close> divides two
  floats, by the distance of pair \<open>j\<close>, whatever that distance is, zero included: no
  distance is tested.  Both calls of the statistics, which are what the run does next,
  receive one sample per pair: sample \<open>j\<close> is the norm of rows 0--2, respectively of
  rows 3--5, of column \<open>j\<close>.
\<close>

theorem ddt_divides_without_guard:
  assumes "Call NpDivide \<in> set (fst (main L a))"
  shows "ddt a \<and> rpe a \<and>
         (\<exists>v g e mp dl off err t r dst tr.
            snd (prepare L a) = Inr v \<and>
            gt_poses_align v = Some g \<and> est_poses_align v = Some e \<and>
            max_pairs a = Some mp \<and> delta a = Some dl \<and> offset a = Some off \<and>
            RPE L g e mp (fixed_delta a) dl (delta_unit a) off = Inr (err, t, r, dst) \<and>
            (length err = length dst \<longrightarrow>
               (\<exists>q. np_divide L err dst = Inr q \<and> length q = length err \<and>
                  (\<forall>j < length err. q ! j = map (\<lambda>y. true_divide L y (dst ! j)) (err ! j)) \<and>
                  length (column_norms L (rows_0_3 q)) = length err \<and>
                  length (column_norms L (rows_3_6 q)) = length err \<and>
                  (\<forall>j < length err.
                     column_norms L (rows_0_3 q) ! j = vector_norm L (take 3 (q ! j)) \<and>
                     column_norms L (rows_3_6 q) ! j =
                       vector_norm L (take 3 (drop 3 (q ! j)))) \<and>
                  main L a =
                    prepend (tr @ [Print ''DDT'', Call NpDivide])
                      (andthen (statistics L (column_norms L (rows_0_3 q))
                                  (Some ''Translational'') (verbose a)) (\<lambda>_.
                       andthen (statistics L (column_norms L (rows_3_6 q))
                                  (Some ''Rotational'') (verbose a)) (\<lambda>_.
                       plots L a v))))))"
proof -
  from metric_calls_selected[OF assms] have flags: "ddt a" "rpe a"
    by simp_all
  from ddt_division_origin[OF assms] obtain v v' where p: "snd (prepare L a) = Inr v"
    and r: "snd (rpe_stage L a v) = Inr v'"
    and eq: "main L a =
           prepend (fst (prepare L a) @ fst (ate_horn_stage L a v) @ fst (ate_manifold_stage L a v)
                      @ fst (rpe_stage L a v))
             (andthen (ddt_stage L a v') (\<lambda>_. plots L a v))"
    by blast
  from rpe_stage_result[OF flags(2) r] obtain g e mp dl off err t r' dst where
    args: "gt_poses_align v = Some g" "est_poses_align v = Some e"
      "max_pairs a = Some mp" "delta a = Some dl" "offset a = Some off"
    and res: "RPE L g e mp (fixed_delta a) dl (delta_unit a) off = Inr (err, t, r', dst)"
    and v': "v' = v\<lparr>rpe_error := Some err, rpe_distance := Some dst\<rparr>"
    by blast
  have bound: "rpe_error v' = Some err" "rpe_distance v' = Some dst"
    by (simp_all add: v')
  let ?tr = "fst (prepare L a) @ fst (ate_horn_stage L a v) @ fst (ate_manifold_stage L a v)
                      @ fst (rpe_stage L a v)"
  have division: "\<exists>q. np_divide L err dst = Inr q \<and> length q = length err \<and>
                  (\<forall>j < length err. q ! j = map (\<lambda>y. true_divide L y (dst ! j)) (err ! j)) \<and>
                  length (column_norms L (rows_0_3 q)) = length err \<and>
                  length (column_norms L (rows_3_6 q)) = length err \<and>
                  (\<forall>j < length err.
                     column_norms L (rows_0_3 q) ! j = vector_norm L (take 3 (q ! j)) \<and>
                     column_norms L (rows_3_6 q) ! j =
                       vector_norm L (take 3 (drop 3 (q ! j)))) \<and>
                  main L a =
                    prepend (?tr @ [Print ''DDT'', Call NpDivide])
                      (andthen (statistics L (column_norms L (rows_0_3 q))
                                  (Some ''Translational'') (verbose a)) (\<lambda>_.
                       andthen (statistics L (column_norms L (rows_3_6 q))
                                  (Some ''Rotational'') (verbose a)) (\<lambda>_.
                       plots L a v)))"
    if len: "length err = length dst"
  proof -
    from ddt_stage_divides[OF flags(1) bound len, of L] obtain q where
      q: "np_divide L err dst = Inr q" "length q = length err"
        "\<forall>j < length err. q ! j = map (\<lambda>y. true_divide L y (dst ! j)) (err ! j)"
        "length (column_norms L (rows_0_3 q)) = length err"
        "length (column_norms L (rows_3_6 q)) = length err"
        "\<forall>j < length err.
              column_norms L (rows_0_3 q) ! j = vector_norm L (take 3 (q ! j)) \<and>
              column_norms L (rows_3_6 q) ! j = vector_norm L (take 3 (drop 3 (q ! j)))"
      and stage: "ddt_stage L a v' =
             prepend [Print ''DDT'', Call NpDivide]
               (andthen (statistics L (column_norms L (rows_0_3 q))
                           (Some ''Translational'') (verbose a)) (\<lambda>_.
                statistics L (column_norms L (rows_3_6 q)) (Some ''Rotational'') (verbose a)))"
      by blast
    have "main L a =
                    prepend (?tr @ [Print ''DDT'', Call NpDivide])
                      (andthen (statistics L (column_norms L (rows_0_3 q))
                                  (Some ''Translational'') (verbose a)) (\<lambda>_.
                       andthen (statistics L (column_norms L (rows_3_6 q))
                                  (Some ''Rotational'') (verbose a)) (\<lambda>_.
                       plots L a v)))"
      unfolding eq stage andthen_prepend prepend_prepend by (simp add: andthen_assoc)
    with q show ?thesis
      by (intro exI[of _ q] conjI) simp_all
  qed
  have run: "\<exists>v g e mp dl off err t r dst tr.
            snd (prepare L a) = Inr v \<and>
            gt_poses_align v = Some g \<and> est_poses_align v = Some e \<and>
            max_pairs a = Some mp \<and> delta a = Some dl \<and> offset a = Some off \<and>
            RPE L g e mp (fixed_delta a) dl (delta_unit a) off = Inr (err, t, r, dst) \<and>
            (length err = length dst \<longrightarrow>
               (\<exists>q. np_divide L err dst = Inr q \<and> length q = length err \<and>
                  (\<forall>j < length err. q ! j = map (\<lambda>y. true_divide L y (dst ! j)) (err ! j)) \<and>
                  length (column_norms L (rows_0_3 q)) = length err \<and>
                  length (column_norms L (rows_3_6 q)) = length err \<and>
                  (\<forall>j < length err.
                     column_norms L (rows_0_3 q) ! j = vector_norm L (take 3 (q ! j)) \<and>
                     column_norms L (rows_3_6 q) ! j =
                       vector_norm L (take 3 (drop 3 (q ! j)))) \<and>
                  main L a =
                    prepend (tr @ [Print ''DDT'', Call NpDivide])
                      (andthen (statistics L (column_norms L (rows_0_3 q))
                                  (Some ''Translational'') (verbose a)) (\<lambda>_.
                       andthen (statistics L (column_norms L (rows_3_6 q))
                                  (Some ''Rotational'') (verbose a)) (\<lambda>_.
                       plots L a v)))))"
    apply (rule exI[of _ v], rule exI[of _ g], rule exI[of _ e], rule exI[of _ mp],
        rule exI[of _ dl], rule exI[of _ off], rule exI[of _ err], rule exI[of _ t],
        rule exI[of _ r'], rule exI[of _ dst], rule exI[of _ ?tr])
    apply (intro conjI impI)
    subgoal by (rule p)
    subgoal by (rule args(1))
    subgoal by (rule args(2))
    subgoal by (rule args(3))
    subgoal by (rule args(4))
    subgoal by (rule args(5))
    subgoal by (rule res)
    subgoal by (erule division)
    done
  from flags run show ?thesis by (intro conjI)
qed

text \<open>
  The run on the sample files with \<^verbatim>\<open>--rpe\<close> and \<^verbatim>\<open>--ddt\<close> reaches the division.
  The RPE has returned two error vectors and two distances, the first distance being
  \<^verbatim>\<open>float('0')\<close>; the sample of the first pair is the norm of the three quotients by
  that distance.
\<close>

theorem ddt_divides_witness:
  "Call NpDivide \<in> set (fst (main sample_lib (sample_args\<lparr>rpe := True, ddt := True\<rparr>))) \<and>
   length sample_rpe_error = length sample_rpe_distance \<and>
   sample_rpe_distance ! 0 = Dec 0 0 \<and>
   (\<exists>q. np_divide sample_lib sample_rpe_error sample_rpe_distance = Inr q \<and> length q = 2 \<and>
        column_norms sample_lib (rows_0_3 q) ! 0 =
          Norm [Quot (Dec 1 0) (Dec 0 0), Quot (Dec 0 0) (Dec 0 0),
                Quot (Dec 0 0) (Dec 0 0)])"
proof -
  let ?b = "sample_args\<lparr>rpe := True, ddt := True\<rparr>"
  have reached: "Call NpDivide \<in> set (fst (main sample_lib ?b))"
    by (simp add: sample_rpe_ddt)
  have z: "sample_rpe_distance ! 0 = Dec 0 0" "length sample_rpe_error = 2"
    "length sample_rpe_error = length sample_rpe_distance"
    "sample_rpe_error ! 0 = [Dec 1 0, Dec 0 0, Dec 0 0, Dec 0 0, Dec 0 0, Dec 0 0]"
    by (simp_all add: sample_rpe_error_def sample_rpe_distance_def)
  from ddt_divides_without_guard[OF reached]
  obtain g e mp dl off err t r dst where
    res: "RPE sample_lib g e mp (fixed_delta ?b) dl (delta_unit ?b) off = Inr (err, t, r, dst)"
    and division: "length err = length dst \<longrightarrow>
               (\<exists>q. np_divide sample_lib err dst = Inr q \<and> length q = length err \<and>
                  (\<forall>j < length err.
                     q ! j = map (\<lambda>y. true_divide sample_lib y (dst ! j)) (err ! j)) \<and>
                  (\<forall>j < length err.
                     column_norms sample_lib (rows_0_3 q) ! j =
                       vector_norm sample_lib (take 3 (q ! j)) \<and>
                     column_norms sample_lib (rows_3_6 q) ! j =
                       vector_norm sample_lib (take 3 (drop 3 (q ! j)))))"
    by blast
  from res have returned: "err = sample_rpe_error" "dst = sample_rpe_distance"
    by (simp_all add: sample_lib_def)
  from division z(3) obtain q where
    q: "np_divide sample_lib sample_rpe_error sample_rpe_distance = Inr q"
      "length q = length sample_rpe_error"
    and col: "\<forall>j < length sample_rpe_error.
      q ! j = map (\<lambda>y. true_divide sample_lib y (sample_rpe_distance ! j)) (sample_rpe_error ! j)"
    and norms: "\<forall>j < length sample_rpe_error.
      column_norms sample_lib (rows_0_3 q) ! j = vector_norm sample_lib (take 3 (q ! j)) \<and>
      column_norms sample_lib (rows_3_6 q) ! j = vector_norm sample_lib (take 3 (drop 3 (q ! j)))"
    unfolding returned by blast
  from col z have "q ! 0 = map (\<lambda>y. Quot y (Dec 0 0))
      [Dec 1 0, Dec 0 0, Dec 0 0, Dec 0 0, Dec 0 0, Dec 0 0]"
    by (simp add: sample_lib_def)
  moreover from norms z have
    "column_norms sample_lib (rows_0_3 q) ! 0 = Norm (take 3 (q ! 0))"
    by (simp add: sample_lib_def)
  ultimately have "column_norms sample_lib (rows_0_3 q) ! 0 =
          Norm [Quot (Dec 1 0) (Dec 0 0), Quot (Dec 0 0) (Dec 0 0),
                Quot (Dec 0 0) (Dec 0 0)]"
    by simp
  with q z have "\<exists>q. np_divide sample_lib sample_rpe_error sample_rpe_distance = Inr q \<and>
        length q = 2 \<and>
        column_norms sample_lib (rows_0_3 q) ! 0 =
          Norm [Quot (Dec 1 0) (Dec 0 0), Quot (Dec 0 0) (Dec 0 0),
                Quot (Dec 0 0) (Dec 0 0)]"
    by simp
  with reached z(1,3) show ?thesis by simp
qed

subsection \<open>Bypassing the association\<close>

lemma associate_bypassed:
  assumes "ignore_timestamp_match a"
  shows "associate L a v = ret v"
  using assms by (simp add: associate_def)

text \<open>
  C7 (as the specification states it).  The claim lets the bypass mode pair the
  trajectories by index and require equal lengths.  The script does neither: with
  \<^verbatim>\<open>--ignore_timestamp_match\<close>, the association stage returns a ground truth of two
  poses and an estimate of one pose as they are, without an exception; and a run on such
  files goes from the scaling straight to the call of the aligner.
\<close>

theorem bypass_accepts_unequal_lengths:
  "gt_poses (sample_env\<lparr>est_poses := sample_traj ''short''\<rparr>) =
     Dict [(Dec 0 0, pose_at 0 0 0), (Dec 1 0, pose_at 1 0 0)] \<and>
   est_poses (sample_env\<lparr>est_poses := sample_traj ''short''\<rparr>) =
     Dict [(Dec 0 0, pose_at 0 0 0)] \<and>
   associate sample_lib (sample_args\<lparr>ignore_timestamp_match := True\<rparr>)
       (sample_env\<lparr>est_poses := sample_traj ''short''\<rparr>) =
     ([], Inr (sample_env\<lparr>est_poses := sample_traj ''short''\<rparr>)) \<and>
   fst (prepare sample_lib (sample_args\<lparr>est_file := ''short'', ignore_timestamp_match := True\<rparr>)) =
     [Call SetLanguage, Call SetFileExtension, Call ReadFileDict, Call ReadFileDict,
      Call CheckValidPoseFormat, Call CheckValidPoseFormat, Call ConvertFileDict,
      Call ConvertFileDict, PrintScale (Dec 1 0), Call ScaleDict, Call ScaleDict,
      Call AlignHorn]"
  by (simp add: script_defs sample_defs sample_env_def)

text \<open>
  C7 (amended).  With \<^verbatim>\<open>--ignore_timestamp_match\<close> the association stage does nothing:
  it emits no event, raises nothing and leaves every variable as it is, whatever the
  lengths of the two trajectories.  The aligner is applied directly to the result of the
  scaling, and \<^verbatim>\<open>associate_and_filter\<close> is called nowhere in the run.  The script
  itself neither pairs the trajectories by index nor compares their lengths.
\<close>

theorem bypass_skips_association:
  assumes "ignore_timestamp_match a"
  shows "associate L a v = ([], Inr v) \<and>
         prepare L a =
           andthen (configure L a) (\<lambda>_.
           andthen (load L a) (\<lambda>v0.
           andthen (apply_scale L a v0) (\<lambda>v1.
           align L a v1))) \<and>
         Call AssociateAndFilter \<notin> set (fst (main L a))"
proof -
  have skip: "associate L a v = ([], Inr v)" for v
    using assms by (simp add: associate_def ret_def)
  have prep: "prepare L a =
           andthen (configure L a) (\<lambda>_.
           andthen (load L a) (\<lambda>v0.
           andthen (apply_scale L a v0) (\<lambda>v1.
           align L a v1)))"
    by (simp add: prepare_def associate_bypassed[OF assms])
  have "\<forall>ev \<in> set (fst (prepare L a)). stage_of ev \<noteq> 3"
    unfolding prep
    by (intro events_andthen ballI)
      (auto dest: stage_events[OF staged_configure] stage_events[OF staged_load]
        stage_events[OF staged_apply_scale] stage_events[OF staged_align])
  then have "Call AssociateAndFilter \<notin> set (fst (prepare L a))"
    by fastforce
  moreover have "Call AssociateAndFilter \<notin> set (fst (metrics L a v))" for v
    using metrics_events[of "Call AssociateAndFilter" L a v] by auto
  moreover have "Call AssociateAndFilter \<notin> set (fst (plots L a v))" for v
    using plots_events[of "Call AssociateAndFilter" L a v] by auto
  ultimately have "Call AssociateAndFilter \<notin> set (fst (main L a))"
    using main_event_origin[of "Call AssociateAndFilter" L a] by blast
  with skip prep show ?thesis by simp
qed

text \<open>
  The run on the sample files with the bypass set never calls the association.
\<close>

theorem bypass_skips_association_witness:
  "ignore_timestamp_match (sample_args\<lparr>ignore_timestamp_match := True\<rparr>) \<and>
   associate sample_lib (sample_args\<lparr>ignore_timestamp_match := True\<rparr>) sample_env = ([], Inr sample_env) \<and>
   Call AssociateAndFilter \<notin> set (fst (main sample_lib (sample_args\<lparr>ignore_timestamp_match := True\<rparr>)))"
proof -
  have "ignore_timestamp_match (sample_args\<lparr>ignore_timestamp_match := True\<rparr>)"
    by simp
  from this bypass_skips_association[OF this, of sample_lib sample_env] show ?thesis
    by simp
qed

end
